theory Spec2Isabelle
  imports Complex_Main
begin

section \<open>The weather station's acquisition-and-publish cycle\<close>

text \<open>
  A shallow embedding of \<^verbatim>\<open>meetstation.py\<close> and \<^verbatim>\<open>config.py\<close>. The program is one
  sequential cycle of calls into the radio, an HTTP client, three I2C sensor drivers, an
  ADC, an MQTT client and the machine's pins. Every such call is an event of a trace; what
  a call answers is read from an environment, a fixed script of the outside world. Python
  exceptions are values of a sum type.
\<close>

subsection \<open>Python numbers\<close>

text \<open>
  Readings are Python numbers: \<^verbatim>\<open>int\<close> or \<^verbatim>\<open>float\<close>. A float is idealised as a real
  number: rounding of the machine's floating point is not modelled. The operators follow
  Python: two ints give an int, anything else a float, and \<^verbatim>\<open>/\<close> always gives a float.
  Every divisor in the program is a non-zero literal.
\<close>

datatype pynum = PInt int | PFloat real

fun num_val :: "pynum \<Rightarrow> real" where
  "num_val (PInt i) = of_int i"
| "num_val (PFloat r) = r"

fun py_add :: "pynum \<Rightarrow> pynum \<Rightarrow> pynum" where
  "py_add (PInt i) (PInt j) = PInt (i + j)"
| "py_add a b = PFloat (num_val a + num_val b)"

fun py_sub :: "pynum \<Rightarrow> pynum \<Rightarrow> pynum" where
  "py_sub (PInt i) (PInt j) = PInt (i - j)"
| "py_sub a b = PFloat (num_val a - num_val b)"

fun py_mul :: "pynum \<Rightarrow> pynum \<Rightarrow> pynum" where
  "py_mul (PInt i) (PInt j) = PInt (i * j)"
| "py_mul a b = PFloat (num_val a * num_val b)"

definition py_truediv :: "pynum \<Rightarrow> pynum \<Rightarrow> pynum" where
  "py_truediv a b = PFloat (num_val a / num_val b)"

subsection \<open>Configuration (config.py)\<close>

record config =
  STATION_ID :: string
  SCL_PIN :: int
  SDA_PIN :: int
  LED_PIN :: int
  LED_ON :: int
  LED_OFF :: int
  DEBUG_PIN :: int
  VBAT_PIN :: int
  FAHRENHEIT :: bool
  INTERVAL :: int
  SSID :: string
  PASS :: string
  MAX_TRIES :: int
  OPENWEATHERMAP_API :: string
  OPENWEATHERMAP_CITY :: string
  OPENWEATHERMAP_LAT :: string
  OPENWEATHERMAP_LON :: string
  OPENWEATHERMAP_URL :: string
  MQTT_HOST :: string
  MQTT_TOPIC :: string
  MQTT_USER :: string
  MQTT_PASS :: string

definition config_py :: config where
  "config_py =
     \<lparr> STATION_ID = ''<Your Station ID>'',
       SCL_PIN = 22, SDA_PIN = 21,
       LED_PIN = 2, LED_ON = 0, LED_OFF = 1,
       DEBUG_PIN = 5,
       VBAT_PIN = 33,
       FAHRENHEIT = False,
       INTERVAL = 900,
       SSID = ''<Your network SSID>'',
       PASS = ''<Your network password>'',
       MAX_TRIES = 20,
       OPENWEATHERMAP_API = ''<Your OpenWeather API key>'',
       OPENWEATHERMAP_CITY = ''<Your OpenWeather City'' @ [CHR 0x5C] @ '',2-letter landcode'',
       OPENWEATHERMAP_LAT = ''<Your OpenWeather City latitude>'',
       OPENWEATHERMAP_LON = ''<Your OpenWeather City longitude>'',
       OPENWEATHERMAP_URL =
         ''https://api.openweathermap.org/data/2.5/weather?lat={lat}&lon={lon}&appid={api}'',
       MQTT_HOST = ''<IP address MQTT host>'',
       MQTT_TOPIC = ''weatherdata'',
       MQTT_USER = ''<Your MQTT user>'',
       MQTT_PASS = ''<Your MQTT password>'' \<rparr>"

subsection \<open>Exceptions\<close>

text \<open>
  \<open>RuntimeError\<close> is what the file raises itself, with its message. \<open>KeyError\<close>,
  \<open>TypeError\<close>, \<open>ValueError\<close>, \<open>IndexError\<close> and \<open>AttributeError\<close> are what the
  interpreter raises on an expression of the file: a lookup of a key that a dictionary lacks
  (with the key), an operation on a value of the wrong type, a format string that does not
  fit its arguments.
  \<open>LibError\<close> is any exception raised inside a collaborator (HTTP client, sensor driver,
  broker client), with whatever that library reports. All are caught by
  \<^verbatim>\<open>except Exception\<close>.
\<close>

type_synonym lib_error = string

datatype exn =
    RuntimeError string
  | KeyError string
  | TypeError
  | ValueError
  | IndexError
  | AttributeError
  | LibError lib_error

subsection \<open>Python values\<close>

text \<open>
  What \<^verbatim>\<open>response.json()\<close> can return: \<^verbatim>\<open>None\<close>, a bool, a number, a string, a list,
  or a dictionary whose keys are strings.
\<close>

datatype pyval =
    PNone
  | PBool bool
  | PNum pynum
  | PStr string
  | PList "pyval list"
  | PDict "string \<Rightarrow> pyval option"

text \<open>
  The operand of an arithmetic operator: a number, or a bool, which Python counts as the
  int 1 or 0. Anything else makes the operator raise \<^verbatim>\<open>TypeError\<close>.
\<close>

fun as_number :: "pyval \<Rightarrow> pynum option" where
  "as_number (PNum n) = Some n"
| "as_number (PBool b) = Some (PInt (if b then 1 else 0))"
| "as_number v = None"

text \<open>
  What \<^verbatim>\<open>str.format\<close> with keyword arguments that are strings raises:
  \<^verbatim>\<open>KeyError\<close> for a field that is not among the arguments, \<^verbatim>\<open>IndexError\<close> for a
  positional field, \<^verbatim>\<open>AttributeError\<close> or \<^verbatim>\<open>TypeError\<close> for a field that selects an
  attribute or an item that a string does not have, \<^verbatim>\<open>ValueError\<close> for a template or a
  format specification that cannot be read.
\<close>

datatype format_error =
    MissingField string
  | PositionalField
  | BadAttribute
  | BadItem
  | BadTemplate

fun format_exn :: "format_error \<Rightarrow> exn" where
  "format_exn (MissingField name) = KeyError name"
| "format_exn PositionalField = IndexError"
| "format_exn BadAttribute = AttributeError"
| "format_exn BadItem = TypeError"
| "format_exn BadTemplate = ValueError"

subsection \<open>The outside world\<close>

text \<open>
  The response of the forecast endpoint: its status code and what \<^verbatim>\<open>response.json()\<close>
  gives, the error of the parser or a Python value of any shape.
\<close>

record response =
  status_code :: int
  json :: "lib_error + pyval"

text \<open>
  The script of one cycle. Answers that can differ from call to call are indexed by the
  number of earlier calls of the same kind. A call that can fail inside its library answers
  with that library's error or with its value. The radio, the pins and the ADC do not fail;
  constructing a driver object may. \<open>str_format\<close> is the interpreter's
  \<^verbatim>\<open>template.format(**kwargs)\<close> on strings: the formatted string, or what it raises.
\<close>

record env =
  isconnected :: "nat \<Rightarrow> bool"
  ifconfig_ip :: string
  status_rssi :: pynum
  str_format :: "string \<Rightarrow> (string \<times> string) list \<Rightarrow> format_error + string"
  urequests_get :: "lib_error + response"
  i2c_scan :: "nat \<Rightarrow> int list"
  am2320_init :: "lib_error option"
  am2320_measure :: "lib_error option"
  am2320_temperature :: pynum
  am2320_humidity :: pynum
  bmp180_init :: "lib_error option"
  bmp180_temperature :: "lib_error + pynum"
  bmp180_pressure :: "lib_error + pynum"
  bmp180_altitude :: "lib_error + pynum"
  bh1750_init :: "lib_error option"
  bh1750_luminance :: "lib_error + pynum"
  adc_read_u16 :: nat
  mqtt_connect :: "lib_error option"
  mqtt_publish :: "lib_error option"
  mqtt_disconnect :: "lib_error option"
  debug_pin :: "nat \<Rightarrow> int"

datatype pin_mode = Pin_default | Pin_OUT | Pin_IN_PULL_UP

datatype fmtarg = AStr string | ANum pynum | AVal pyval

datatype event =
    Print string
  | PrintNoNewline string
  | PrintFormat string "fmtarg list"
  | PrintValue pyval
  | PrintException exn
  | PinNew int pin_mode
  | PinValueSet int int
  | PinValueGet int
  | Sleep real
  | ApActive bool
  | StaActive bool
  | StaIsConnected
  | StaConnect string string
  | StaIfconfig
  | StaStatusRssi
  | UrequestsGet string
  | ResponseJson
  | SoftI2CNew int int int
  | I2CScan
  | AM2320New
  | AM2320Measure
  | AM2320Temperature
  | AM2320Humidity
  | BMP180New
  | BMP180Temperature
  | BMP180Pressure
  | BMP180Altitude
  | BH1750New
  | BH1750Luminance
  | ADCNew int
  | ADCAtten
  | ADCReadU16
  | MQTTClientNew string string nat
  | MQTTConnect
  | MQTTPublish string string
  | MQTTDisconnect
  | MachineDeepsleep int
  | MachineReset

record world =
  trace :: "event list"
  isconnected_calls :: nat
  scan_calls :: nat
  debug_reads :: nat

definition boot :: world where
  "boot = \<lparr> trace = [], isconnected_calls = 0, scan_calls = 0, debug_reads = 0 \<rparr>"

subsection \<open>Sequencing with exceptions\<close>

type_synonym 'a io = "world \<Rightarrow> (exn + 'a) \<times> world"

definition emit :: "event \<Rightarrow> world \<Rightarrow> world" where
  "emit e w = w\<lparr>trace := trace w @ [e]\<rparr>"

definition ret :: "'a \<Rightarrow> 'a io" where
  "ret x w = (Inr x, w)"

definition raise :: "exn \<Rightarrow> 'a io" where
  "raise e w = (Inl e, w)"

definition andthen :: "'a io \<Rightarrow> ('a \<Rightarrow> 'b io) \<Rightarrow> 'b io" where
  "andthen m f w = (case m w of (Inl e, w') \<Rightarrow> (Inl e, w') | (Inr x, w') \<Rightarrow> f x w')"

definition next_do :: "unit io \<Rightarrow> 'b io \<Rightarrow> 'b io" where
  "next_do m n = andthen m (\<lambda>_. n)"

definition try_except :: "'a io \<Rightarrow> (exn \<Rightarrow> 'a io) \<Rightarrow> 'a io" where
  "try_except m h w = (case m w of (Inl e, w') \<Rightarrow> h e w' | (Inr x, w') \<Rightarrow> (Inr x, w'))"

text \<open>A call that cannot fail, and calls that fail when the script says so.\<close>

definition act :: "event \<Rightarrow> unit io" where
  "act e w = (Inr (), emit e w)"

definition call_unit :: "event \<Rightarrow> lib_error option \<Rightarrow> unit io" where
  "call_unit e r w =
     (case r of Some x \<Rightarrow> (Inl (LibError x), emit e w) | None \<Rightarrow> (Inr (), emit e w))"

definition call_val :: "event \<Rightarrow> lib_error + 'a \<Rightarrow> 'a io" where
  "call_val e r w =
     (case r of Inl x \<Rightarrow> (Inl (LibError x), emit e w) | Inr v \<Rightarrow> (Inr v, emit e w))"

fun acts :: "event list \<Rightarrow> unit io" where
  "acts [] = ret ()"
| "acts (e # es) = next_do (act e) (acts es)"

text \<open>
  \<^verbatim>\<open>v[k]\<close> with a string \<open>k\<close>: a dictionary gives the member or raises
  \<^verbatim>\<open>KeyError\<close>; a list or a string takes no string index, and \<^verbatim>\<open>None\<close>, a bool and a
  number take no index at all, so they raise \<^verbatim>\<open>TypeError\<close>.
\<close>

fun subscript :: "pyval \<Rightarrow> string \<Rightarrow> pyval io" where
  "subscript (PDict d) k = (case d k of None \<Rightarrow> raise (KeyError k) | Some v \<Rightarrow> ret v)"
| "subscript v k = raise TypeError"

text \<open>\<^verbatim>\<open>v - x\<close> with a float literal \<open>x\<close>.\<close>

definition minus_float :: "pyval \<Rightarrow> real \<Rightarrow> pynum io" where
  "minus_float v x =
     (case as_number v of None \<Rightarrow> raise TypeError | Some n \<Rightarrow> ret (py_sub n (PFloat x)))"

text \<open>
  A field \<^verbatim>\<open>{:.0f}\<close> of a format string takes a number or a bool; on a string it raises
  \<^verbatim>\<open>ValueError\<close>, on \<^verbatim>\<open>None\<close>, a list or a dictionary \<^verbatim>\<open>TypeError\<close>.
\<close>

fun format_f :: "pyval \<Rightarrow> unit io" where
  "format_f (PNum n) = ret ()"
| "format_f (PBool b) = ret ()"
| "format_f (PStr s) = raise ValueError"
| "format_f v = raise TypeError"

text \<open>\<^verbatim>\<open>template.format(**kwargs)\<close> on strings.\<close>

definition format_kw :: "env \<Rightarrow> string \<Rightarrow> (string \<times> string) list \<Rightarrow> string io" where
  "format_kw env template kwargs =
     (case str_format env template kwargs of
        Inl x \<Rightarrow> raise (format_exn x)
      | Inr s \<Rightarrow> ret s)"

subsection \<open>Error routine\<close>

text \<open>The body of \<^verbatim>\<open>for i in range(3)\<close>, run \<open>n\<close> times.\<close>

fun flash :: "config \<Rightarrow> nat \<Rightarrow> unit io" where
  "flash cfg 0 = ret ()"
| "flash cfg (Suc n) =
     next_do (acts [PinValueSet (LED_PIN cfg) (LED_ON cfg), Sleep (1 / 2),
                    PinValueSet (LED_PIN cfg) (LED_OFF cfg), Sleep (1 / 2)])
       (flash cfg n)"

definition show_error :: "config \<Rightarrow> unit io" where
  "show_error cfg = next_do (act (PinNew (LED_PIN cfg) Pin_OUT)) (flash cfg 3)"

subsection \<open>Check debug on\<close>

definition pin_value :: "config \<Rightarrow> env \<Rightarrow> int io" where
  "pin_value cfg env w =
     (Inr (debug_pin env (debug_reads w)),
      emit (PinValueGet (DEBUG_PIN cfg)) (w\<lparr>debug_reads := Suc (debug_reads w)\<rparr>))"

definition debug_on :: "config \<Rightarrow> env \<Rightarrow> bool io" where
  "debug_on cfg env =
     next_do (act (PinNew (DEBUG_PIN cfg) Pin_IN_PULL_UP))
       (andthen (pin_value cfg env) (\<lambda>v. if v = 0 then ret True else ret False))"

text \<open>The recurring \<^verbatim>\<open>if debug_on(): print(...)\<close>.\<close>

definition debug_print :: "config \<Rightarrow> env \<Rightarrow> event list \<Rightarrow> unit io" where
  "debug_print cfg env es = andthen (debug_on cfg env) (\<lambda>d. if d then acts es else ret ())"

subsection \<open>Connect to Wifi\<close>

definition sta_isconnected :: "env \<Rightarrow> world \<Rightarrow> bool \<times> world" where
  "sta_isconnected env w =
     (isconnected env (isconnected_calls w),
      emit StaIsConnected (w\<lparr>isconnected_calls := Suc (isconnected_calls w)\<rparr>))"

definition sta_isconnected_io :: "env \<Rightarrow> bool io" where
  "sta_isconnected_io env w = (case sta_isconnected env w of (c, w') \<Rightarrow> (Inr c, w'))"

text \<open>
  The loop \<^verbatim>\<open>while not sta_if.isconnected() and tries < config.MAX_TRIES\<close>; nothing in
  it raises, so it hands back the world it leaves.
\<close>

function wifi_wait :: "config \<Rightarrow> env \<Rightarrow> int \<Rightarrow> world \<Rightarrow> world" where
  "wifi_wait cfg env tries w =
     (case sta_isconnected env w of
        (c, w1) \<Rightarrow>
          if \<not> c \<and> tries < MAX_TRIES cfg
          then wifi_wait cfg env (tries + 1) (emit (Sleep 1) (emit (PrintNoNewline ''.'') w1))
          else w1)"
  by pat_completeness auto
termination
  by (relation "measure (\<lambda>(cfg, env, tries, w). nat (MAX_TRIES cfg - tries))") auto

declare wifi_wait.simps [simp del]

definition connect_wifi :: "config \<Rightarrow> env \<Rightarrow> pynum io" where
  "connect_wifi cfg env =
     next_do (act (ApActive False))
    (andthen (sta_isconnected_io env) (\<lambda>c.
     next_do
       (if \<not> c then
          next_do (act (Print ''connecting to WiFi network...''))
         (next_do (act (StaActive True))
         (next_do (act (StaConnect (SSID cfg) (PASS cfg)))
                  (\<lambda>w. (Inr (), wifi_wait cfg env 0 w))))
        else ret ())
    (andthen (sta_isconnected_io env) (\<lambda>c'.
       if c' then
         next_do (act (Print ''''))
        (next_do (act StaIfconfig)
        (next_do (act (PrintFormat ''connected to {} network with ip address {}''
                         [AStr (SSID cfg), AStr (ifconfig_ip env)]))
        (next_do (act StaStatusRssi)
                 (ret (status_rssi env)))))
       else
         next_do (act (Print ''''))
        (next_do (act (PrintFormat ''no connection to {} network'' [AStr (SSID cfg)]))
                 (raise (RuntimeError ''WiFi connection failed'')))))))"

subsection \<open>Temperature in Celsius or Fahrenheit\<close>

definition temperature_2_unit :: "config \<Rightarrow> pynum \<Rightarrow> pynum" where
  "temperature_2_unit cfg celsius =
     (if FAHRENHEIT cfg
      then py_add (py_truediv (py_mul celsius (PInt 9)) (PInt 5)) (PInt 32)
      else celsius)"

subsection \<open>Get current weather data\<close>

text \<open>
  The dictionary that \<open>get_weather_data\<close> returns. \<open>ow_temp\<close> is the result of
  arithmetic, a number; \<open>ow_hum\<close> and \<open>ow_pres\<close> are whatever the response held.
\<close>

record forecast_set =
  ow_temp :: pynum
  ow_hum :: pyval
  ow_pres :: pyval

definition unit_letter :: "config \<Rightarrow> string" where
  "unit_letter cfg = (if FAHRENHEIT cfg then ''F'' else ''C'')"

definition get_weather_data :: "config \<Rightarrow> env \<Rightarrow> forecast_set io" where
  "get_weather_data cfg env =
     next_do (act (Print ''Invoking OpenWeather URL webhook''))
    (andthen (format_kw env (OPENWEATHERMAP_URL cfg)
                [(''lat'', OPENWEATHERMAP_LAT cfg), (''lon'', OPENWEATHERMAP_LON cfg),
                 (''api'', OPENWEATHERMAP_API cfg)]) (\<lambda>url.
     andthen (call_val (UrequestsGet url) (urequests_get env)) (\<lambda>response.
     next_do
       (if status_code response < 400 then act (Print ''Webhook OpenWeather URL success'')
        else next_do (act (Print ''Webhook OpenWeather URL failed''))
                     (raise (RuntimeError ''Webhook OpenWeather URL failed'')))
    (andthen (call_val ResponseJson (json response)) (\<lambda>today.
     next_do (debug_print cfg env [Print ''OpenWeather URL data'', PrintValue today])
    (andthen (subscript today ''main'') (\<lambda>main_t.
     andthen (subscript main_t ''temp'') (\<lambda>temp.
     andthen (minus_float temp (27315 / 100)) (\<lambda>celsius.
     andthen (ret (temperature_2_unit cfg celsius)) (\<lambda>ow_temp'.
     andthen (subscript today ''main'') (\<lambda>main_h.
     andthen (subscript main_h ''humidity'') (\<lambda>ow_hum'.
     andthen (subscript today ''main'') (\<lambda>main_p.
     andthen (subscript main_p ''pressure'') (\<lambda>ow_pres'.
     next_do
       (andthen (debug_on cfg env) (\<lambda>d.
          if d then
            next_do (act (Print ''''))
           (next_do (format_f ow_hum')
           (next_do (format_f ow_pres')
                    (act (PrintFormat
                            ''OpenWeather T: {:.0f} {} - H: {:.0f} % - P: {:.0f} hPa''
                            [ANum ow_temp', AStr (unit_letter cfg), AVal ow_hum',
                             AVal ow_pres']))))
          else ret ()))
       (ret \<lparr> ow_temp = ow_temp', ow_hum = ow_hum', ow_pres = ow_pres' \<rparr>)))))))))))))))"

subsection \<open>Get sensor readings\<close>

record reading_set =
  am2320_temp :: pynum
  am2320_hum :: pynum
  bmp180_temp :: pynum
  bmp180_pres :: pynum
  bmp180_alt :: pynum
  bh1750_lum :: pynum
  bat_volt :: pynum

definition scan :: "env \<Rightarrow> int list io" where
  "scan env w =
     (Inr (i2c_scan env (scan_calls w)), emit I2CScan (w\<lparr>scan_calls := Suc (scan_calls w)\<rparr>))"

text \<open>
  \<^verbatim>\<open>get_sensor_readings\<close> is one function of four sections, each under its own banner
  comment; the sections are defined one by one and put together below, in the order of
  the source.
\<close>

definition am2320_section :: "config \<Rightarrow> env \<Rightarrow> (pynum \<times> pynum) io" where
  "am2320_section cfg env =
     next_do (call_unit AM2320New (am2320_init env))
    (andthen (scan env) (\<lambda>wake_up.
     andthen (scan env) (\<lambda>found.
     next_do (if 92 \<notin> set found then raise (RuntimeError ''Cannot find AM2320 sensor'')
              else ret ())
    (next_do (call_unit AM2320Measure (am2320_measure env))
    (next_do (act AM2320Temperature)
    (andthen (ret (temperature_2_unit cfg (am2320_temperature env))) (\<lambda>t.
     next_do (act AM2320Humidity)
    (andthen (ret (am2320_humidity env)) (\<lambda>h.
     next_do (debug_print cfg env
                [Print '''',
                 PrintFormat ''AM2320      T: {:.0f} {} - H: {:.0f} %''
                   [ANum t, AStr (unit_letter cfg), ANum h]])
             (ret (t, h)))))))))))"

definition bmp180_section :: "config \<Rightarrow> env \<Rightarrow> (pynum \<times> pynum \<times> pynum) io" where
  "bmp180_section cfg env =
     next_do (call_unit BMP180New (bmp180_init env))
    (andthen (scan env) (\<lambda>found.
     next_do (if 119 \<notin> set found then raise (RuntimeError ''Cannot find BMP180 sensor'')
              else ret ())
    (andthen (call_val BMP180Temperature (bmp180_temperature env)) (\<lambda>raw_t.
     andthen (ret (temperature_2_unit cfg raw_t)) (\<lambda>t.
     andthen (call_val BMP180Pressure (bmp180_pressure env)) (\<lambda>raw_p.
     andthen (ret (py_truediv raw_p (PInt 100))) (\<lambda>p.
     andthen (call_val BMP180Altitude (bmp180_altitude env)) (\<lambda>a.
     next_do (debug_print cfg env
                [PrintFormat ''BMP180      T: {:.0f} {} - P: {:.0f} hPa - A: {:.0f} m''
                   [ANum t, AStr (unit_letter cfg), ANum p, ANum a]])
             (ret (t, p, a))))))))))"

definition bh1750_section :: "config \<Rightarrow> env \<Rightarrow> pynum io" where
  "bh1750_section cfg env =
     next_do (call_unit BH1750New (bh1750_init env))
    (andthen (scan env) (\<lambda>found.
     next_do (if 35 \<notin> set found then raise (RuntimeError ''Cannot find BH1750 sensor'')
              else ret ())
    (andthen (call_val BH1750Luminance (bh1750_luminance env)) (\<lambda>l.
     next_do (debug_print cfg env [PrintFormat ''BH1750FVI   L: {:.0f} lux'' [ANum l]])
             (ret l)))))"

definition battery_section :: "config \<Rightarrow> env \<Rightarrow> pynum io" where
  "battery_section cfg env =
     next_do (acts [PinNew (VBAT_PIN cfg) Pin_default, ADCNew (VBAT_PIN cfg), ADCAtten,
                    ADCReadU16])
    (andthen (ret (py_mul (py_mul (PFloat (33 / 10)) (PFloat (127 / 100)))
                          (py_truediv (PInt (int (adc_read_u16 env))) (PInt (2 ^ 16))))) (\<lambda>v.
     next_do (debug_print cfg env [PrintFormat ''Battery     V: {:.2f} Volt'' [ANum v]])
             (ret v)))"

definition get_sensor_readings :: "config \<Rightarrow> env \<Rightarrow> reading_set io" where
  "get_sensor_readings cfg env =
     next_do (act (Print ''Getting sensor readings''))
    (next_do (acts [PinNew (SCL_PIN cfg) Pin_default, PinNew (SDA_PIN cfg) Pin_default,
                    SoftI2CNew (SCL_PIN cfg) (SDA_PIN cfg) 100000])
    (andthen (am2320_section cfg env) (\<lambda>(t1, h).
     andthen (bmp180_section cfg env) (\<lambda>(t2, p, a).
     andthen (bh1750_section cfg env) (\<lambda>l.
     andthen (battery_section cfg env) (\<lambda>v.
     ret \<lparr> am2320_temp = t1, am2320_hum = h, bmp180_temp = t2, bmp180_pres = p,
           bmp180_alt = a, bh1750_lum = l, bat_volt = v \<rparr>))))))"

subsection \<open>Upload readings to MQTT broker\<close>

text \<open>
  \<open>str\<close> is Python's \<^verbatim>\<open>str\<close> on values, a parameter of the model. The two
  \<^verbatim>\<open>'...{}...'.format(...)\<close> of the source are written as the concatenations they compute.
\<close>

definition CRLF :: string where
  "CRLF = [CHR 0x0D, CHR 0x0A]"

definition forecasts_line :: "(pyval \<Rightarrow> string) \<Rightarrow> config \<Rightarrow> forecast_set \<Rightarrow> string" where
  "forecasts_line str cfg ow_data =
     ''forecasts,source='' @ ''OpenWeatherMap'' @ '',location='' @ OPENWEATHERMAP_CITY cfg
     @ '' ow_temp='' @ str (PNum (ow_temp ow_data)) @ '',ow_hum='' @ str (ow_hum ow_data)
     @ '',ow_pres='' @ str (ow_pres ow_data) @ '' '' @ CRLF"

definition actuals_line ::
  "(pyval \<Rightarrow> string) \<Rightarrow> config \<Rightarrow> reading_set \<Rightarrow> pynum \<Rightarrow> string" where
  "actuals_line str cfg sensor_data wifi_rssi =
     ''actuals,source='' @ STATION_ID cfg @ '',location='' @ OPENWEATHERMAP_CITY cfg
     @ '' ac_temp='' @ str (PNum (am2320_temp sensor_data))
     @ '',ac_hum='' @ str (PNum (am2320_hum sensor_data))
     @ '',ac_pres='' @ str (PNum (bmp180_pres sensor_data))
     @ '',ac_lum='' @ str (PNum (bh1750_lum sensor_data))
     @ '',ac_batv='' @ str (PNum (bat_volt sensor_data))
     @ '',ac_rssi='' @ str (PNum wifi_rssi) @ '' '' @ CRLF"

definition payload ::
  "(pyval \<Rightarrow> string) \<Rightarrow> config \<Rightarrow> forecast_set \<Rightarrow> reading_set \<Rightarrow> pynum \<Rightarrow> string" where
  "payload str cfg ow_data sensor_data wifi_rssi =
     '''' @ forecasts_line str cfg ow_data @ actuals_line str cfg sensor_data wifi_rssi"

definition log_readings ::
  "(pyval \<Rightarrow> string) \<Rightarrow> config \<Rightarrow> env \<Rightarrow> forecast_set \<Rightarrow> reading_set \<Rightarrow> pynum \<Rightarrow> unit io" where
  "log_readings str cfg env ow_data sensor_data wifi_rssi =
     next_do (act (Print ''Upload readings to MQTT broker''))
    (next_do
       (try_except
          (next_do (act (MQTTClientNew ''effevees_weerstation'' (MQTT_HOST cfg) 30))
          (next_do (call_unit MQTTConnect (mqtt_connect env))
          (next_do (call_unit (MQTTPublish (MQTT_TOPIC cfg)
                                 (payload str cfg ow_data sensor_data wifi_rssi))
                              (mqtt_publish env))
                   (call_unit MQTTDisconnect (mqtt_disconnect env)))))
          (\<lambda>exc. next_do (act (PrintException exc)) (show_error cfg)))
       (debug_print cfg env
          [PrintFormat ''MQTT publish : {}''
             [AStr (payload str cfg ow_data sensor_data wifi_rssi)]]))"

subsection \<open>Deepsleep and the main program\<close>

text \<open>
  \<^verbatim>\<open>deepsleep\<close> and \<^verbatim>\<open>reset\<close> do not return: the machine sleeps until the timer wakes it
  into a fresh boot, or restarts at once. \<open>run\<close> therefore ends in one of four ways.
\<close>

datatype outcome = Returned | InDeepsleep int | Restarted | Uncaught exn

definition deepsleep_till_next_cycle :: "config \<Rightarrow> world \<Rightarrow> outcome \<times> world" where
  "deepsleep_till_next_cycle cfg w =
     (case acts [PrintFormat ''Going into deepsleep for {} seconds...''
                   [ANum (PInt (INTERVAL cfg))],
                 Sleep 2,
                 MachineDeepsleep (INTERVAL cfg * 1000)] w of
        (r, w') \<Rightarrow> (InDeepsleep (INTERVAL cfg * 1000), w'))"

text \<open>The body of the \<^verbatim>\<open>try\<close> of \<open>run\<close>.\<close>

definition stages :: "(pyval \<Rightarrow> string) \<Rightarrow> config \<Rightarrow> env \<Rightarrow> unit io" where
  "stages str cfg env =
     andthen (connect_wifi cfg env) (\<lambda>wifi_rssi.
     andthen (get_weather_data cfg env) (\<lambda>ow_data.
     andthen (get_sensor_readings cfg env) (\<lambda>sensor_data.
     log_readings str cfg env ow_data sensor_data wifi_rssi)))"

definition on_exception :: "config \<Rightarrow> exn \<Rightarrow> unit io" where
  "on_exception cfg exc =
     next_do (act (PrintException exc))
    (next_do (show_error cfg)
    (next_do (act (Sleep 5))
             (act MachineReset)))"

definition run :: "(pyval \<Rightarrow> string) \<Rightarrow> config \<Rightarrow> env \<Rightarrow> world \<Rightarrow> outcome \<times> world" where
  "run str cfg env w =
     (case stages str cfg env w of
        (Inl exc, w1) \<Rightarrow> (case on_exception cfg exc w1 of (r, w2) \<Rightarrow> (Restarted, w2))
      | (Inr u, w1) \<Rightarrow>
          (case debug_on cfg env w1 of
             (Inl e, w2) \<Rightarrow> (Uncaught e, w2)
           | (Inr d, w2) \<Rightarrow> if \<not> d then deepsleep_till_next_cycle cfg w2 else (Returned, w2)))"

section \<open>Vocabulary of the properties\<close>

text \<open>What a call added to the trace.\<close>

definition new_events :: "world \<Rightarrow> world \<Rightarrow> event list" where
  "new_events w w' = drop (length (trace w)) (trace w')"

text \<open>The events of \<open>show_error\<close>, of \<open>debug_on\<close> and of one turn of the polling loop.\<close>

definition show_error_events :: "config \<Rightarrow> event list" where
  "show_error_events cfg =
     PinNew (LED_PIN cfg) Pin_OUT #
     concat (replicate 3 [PinValueSet (LED_PIN cfg) (LED_ON cfg), Sleep (1 / 2),
                          PinValueSet (LED_PIN cfg) (LED_OFF cfg), Sleep (1 / 2)])"

definition debug_on_events :: "config \<Rightarrow> event list" where
  "debug_on_events cfg = [PinNew (DEBUG_PIN cfg) Pin_IN_PULL_UP, PinValueGet (DEBUG_PIN cfg)]"

definition poll_events :: "event list" where
  "poll_events = [StaIsConnected, PrintNoNewline ''.'', Sleep 1]"

text \<open>
  Events that only \<open>get_sensor_readings\<close> makes, events that only \<open>log_readings\<close> makes
  (their first statements print the two banners), and the two calls that end a cycle.
\<close>

fun sensor_stage_event :: "event \<Rightarrow> bool" where
  "sensor_stage_event (Print s) = (s = ''Getting sensor readings'')"
| "sensor_stage_event (SoftI2CNew scl sda freq) = True"
| "sensor_stage_event I2CScan = True"
| "sensor_stage_event AM2320New = True"
| "sensor_stage_event AM2320Measure = True"
| "sensor_stage_event AM2320Temperature = True"
| "sensor_stage_event AM2320Humidity = True"
| "sensor_stage_event BMP180New = True"
| "sensor_stage_event BMP180Temperature = True"
| "sensor_stage_event BMP180Pressure = True"
| "sensor_stage_event BMP180Altitude = True"
| "sensor_stage_event BH1750New = True"
| "sensor_stage_event BH1750Luminance = True"
| "sensor_stage_event (ADCNew p) = True"
| "sensor_stage_event ADCAtten = True"
| "sensor_stage_event ADCReadU16 = True"
| "sensor_stage_event e = False"

fun publish_stage_event :: "event \<Rightarrow> bool" where
  "publish_stage_event (Print s) = (s = ''Upload readings to MQTT broker'')"
| "publish_stage_event (MQTTClientNew c h k) = True"
| "publish_stage_event MQTTConnect = True"
| "publish_stage_event (MQTTPublish t p) = True"
| "publish_stage_event MQTTDisconnect = True"
| "publish_stage_event e = False"

fun power_event :: "event \<Rightarrow> bool" where
  "power_event (MachineDeepsleep ms) = True"
| "power_event MachineReset = True"
| "power_event e = False"

text \<open>A computation adds to the trace only events that satisfy \<open>P\<close>.\<close>

definition only :: "(event \<Rightarrow> bool) \<Rightarrow> 'a io \<Rightarrow> bool" where
  "only P m \<longleftrightarrow> (\<forall>w. \<exists>es. trace (snd (m w)) = trace w @ es \<and> (\<forall>e \<in> set es. P e))"

text \<open>The payloads handed to the broker client, in order.\<close>

fun published :: "event list \<Rightarrow> (string \<times> string) list" where
  "published [] = []"
| "published (MQTTPublish t p # es) = (t, p) # published es"
| "published (e # es) = published es"

text \<open>
  The member \<open>k\<close> of a value: what a dictionary holds under \<open>k\<close>; nothing when the
  dictionary has no such key or the value is no dictionary. \<open>main_member today k\<close> is
  the response's \<^verbatim>\<open>main.k\<close>.
\<close>

fun is_dict :: "pyval \<Rightarrow> bool" where
  "is_dict (PDict d) = True"
| "is_dict v = False"

fun member :: "pyval \<Rightarrow> string \<Rightarrow> pyval option" where
  "member (PDict d) k = d k"
| "member v k = None"

definition main_member :: "pyval \<Rightarrow> string \<Rightarrow> pyval option" where
  "main_member today k = (case member today ''main'' of None \<Rightarrow> None | Some m \<Rightarrow> member m k)"

text \<open>
  A response lacks one of the expected keys \<^verbatim>\<open>main.temp\<close>, \<^verbatim>\<open>main.humidity\<close>,
  \<^verbatim>\<open>main.pressure\<close>.
\<close>

definition missing_key :: "pyval \<Rightarrow> bool" where
  "missing_key today \<longleftrightarrow>
     main_member today ''temp'' = None \<or> main_member today ''humidity'' = None
     \<or> main_member today ''pressure'' = None"

text \<open>\<^verbatim>\<open>main.temp\<close> is there and is a number (a bool counts as one).\<close>

definition temp_number :: "pyval \<Rightarrow> bool" where
  "temp_number today \<longleftrightarrow>
     (case main_member today ''temp'' of None \<Rightarrow> False | Some t \<Rightarrow> as_number t \<noteq> None)"

text \<open>
  A value that a field \<^verbatim>\<open>{:.0f}\<close> can show, and the exception the field raises on
  another one. \<open>readings_formattable\<close>: \<^verbatim>\<open>main.humidity\<close> and \<^verbatim>\<open>main.pressure\<close>
  are there and can be shown so.
\<close>

fun formattable :: "pyval \<Rightarrow> bool" where
  "formattable (PNum n) = True"
| "formattable (PBool b) = True"
| "formattable v = False"

fun format_f_exn :: "pyval \<Rightarrow> exn" where
  "format_f_exn (PStr s) = ValueError"
| "format_f_exn v = TypeError"

definition readings_formattable :: "pyval \<Rightarrow> bool" where
  "readings_formattable today \<longleftrightarrow>
     (case main_member today ''humidity'' of
        None \<Rightarrow> False
      | Some h \<Rightarrow>
          (case main_member today ''pressure'' of
             None \<Rightarrow> False
           | Some p \<Rightarrow> formattable h \<and> formattable p))"

text \<open>
  The exceptions \<open>get_weather_data\<close> raises on a response it has received, the spec's
  \<^verbatim>\<open>RemoteFetchError\<close>: the \<^verbatim>\<open>RuntimeError\<close> of the status check, and the
  \<^verbatim>\<open>KeyError\<close>, \<^verbatim>\<open>TypeError\<close> or \<^verbatim>\<open>ValueError\<close> of reading a parsed body that
  is not as expected.
\<close>

fun remote_fetch_error :: "exn \<Rightarrow> bool" where
  "remote_fetch_error (RuntimeError msg) = (msg = ''Webhook OpenWeather URL failed'')"
| "remote_fetch_error (KeyError k) = True"
| "remote_fetch_error TypeError = True"
| "remote_fetch_error ValueError = True"
| "remote_fetch_error IndexError = False"
| "remote_fetch_error AttributeError = False"
| "remote_fetch_error (LibError x) = False"


subsection \<open>A cycle in which everything answers\<close>

text \<open>
  A formatter to run the model with: it copies the template and puts the argument of
  that name in the place of each \<^verbatim>\<open>{name}\<close>. It is \<^verbatim>\<open>str.format\<close> on the templates
  in which every brace belongs to such a field with a plain name, as in that of
  \<^verbatim>\<open>config.py\<close>. \<open>fill (Some n)\<close> is inside a field, having read \<open>n\<close> of its name.
\<close>

fun fill :: "string option \<Rightarrow> string \<Rightarrow> (string \<times> string) list \<Rightarrow> format_error + string" where
  "fill None [] kwargs = Inr []"
| "fill (Some n) [] kwargs = Inl BadTemplate"
| "fill None (c # cs) kwargs =
     (if c = CHR 0x7B then fill (Some []) cs kwargs
      else if c = CHR 0x7D then Inl BadTemplate
      else (case fill None cs kwargs of Inl x \<Rightarrow> Inl x | Inr t \<Rightarrow> Inr (c # t)))"
| "fill (Some n) (c # cs) kwargs =
     (if c = CHR 0x7D
      then (if n = [] then Inl PositionalField
            else (case map_of kwargs n of
                    None \<Rightarrow> Inl (MissingField n)
                  | Some v \<Rightarrow>
                      (case fill None cs kwargs of Inl x \<Rightarrow> Inl x | Inr t \<Rightarrow> Inr (v @ t))))
      else fill (Some (n @ [c])) cs kwargs)"

definition format_fields :: "string \<Rightarrow> (string \<times> string) list \<Rightarrow> format_error + string" where
  "format_fields template kwargs = fill None template kwargs"

definition url_py :: string where
  "url_py =
     ''https://api.openweathermap.org/data/2.5/weather?lat=<Your OpenWeather City latitude>''
     @ ''&lon=<Your OpenWeather City longitude>&appid=<Your OpenWeather API key>''"

definition main_ok :: "string \<Rightarrow> pyval option" where
  "main_ok = [''temp'' \<mapsto> PNum (PFloat (28315 / 100)), ''humidity'' \<mapsto> PNum (PInt 81),
              ''pressure'' \<mapsto> PNum (PInt 1012)]"

definition body_ok :: pyval where
  "body_ok = PDict [''main'' \<mapsto> PDict main_ok]"

definition env_ok :: env where
  "env_ok =
     \<lparr> isconnected = (\<lambda>k. True),
       ifconfig_ip = ''192.168.1.20'',
       status_rssi = PInt (- 60),
       str_format = format_fields,
       urequests_get = Inr \<lparr> status_code = 200, json = Inr body_ok \<rparr>,
       i2c_scan = (\<lambda>k. [35, 92, 119]),
       am2320_init = None,
       am2320_measure = None,
       am2320_temperature = PFloat 10,
       am2320_humidity = PFloat 55,
       bmp180_init = None,
       bmp180_temperature = Inr (PFloat 11),
       bmp180_pressure = Inr (PInt 101300),
       bmp180_altitude = Inr (PFloat 12),
       bh1750_init = None,
       bh1750_luminance = Inr (PFloat 300),
       adc_read_u16 = 32768,
       mqtt_connect = None,
       mqtt_publish = None,
       mqtt_disconnect = None,
       debug_pin = (\<lambda>k. 1) \<rparr>"

text \<open>A stand-in for Python's \<^verbatim>\<open>str\<close>, to run the model: it hides the digits.\<close>

definition str_hidden :: "pyval \<Rightarrow> string" where
  "str_hidden v = ''#''"

text \<open>The connect request and the one-second wait of a polling attempt.\<close>

fun connect_request :: "event \<Rightarrow> bool" where
  "connect_request (StaConnect s p) = True"
| "connect_request e = False"

fun poll_wait :: "event \<Rightarrow> bool" where
  "poll_wait (Sleep d) = (d = 1)"
| "poll_wait e = False"

text \<open>Events that belong to neither of those two stages and do not end the cycle.\<close>

definition quiet :: "event \<Rightarrow> bool" where
  "quiet e \<longleftrightarrow> \<not> sensor_stage_event e \<and> \<not> publish_stage_event e \<and> \<not> power_event e"

text \<open>The events of \<open>deepsleep_till_next_cycle\<close> and of the handler of \<open>run\<close>.\<close>

definition deepsleep_events :: "config \<Rightarrow> event list" where
  "deepsleep_events cfg =
     [PrintFormat ''Going into deepsleep for {} seconds...'' [ANum (PInt (INTERVAL cfg))],
      Sleep 2,
      MachineDeepsleep (INTERVAL cfg * 1000)]"

definition on_exception_events :: "config \<Rightarrow> exn \<Rightarrow> event list" where
  "on_exception_events cfg exc =
     PrintException exc # show_error_events cfg @ [Sleep 5, MachineReset]"

text \<open>The first failure of the broker client, if any, in the order of its three calls.\<close>

definition broker_failure :: "env \<Rightarrow> lib_error option" where
  "broker_failure env =
     (case mqtt_connect env of
        Some x \<Rightarrow> Some x
      | None \<Rightarrow> (case mqtt_publish env of Some x \<Rightarrow> Some x | None \<Rightarrow> mqtt_disconnect env))"

text \<open>The broker calls that are made: each one up to and including the first that fails.\<close>

definition broker_calls :: "config \<Rightarrow> env \<Rightarrow> string \<Rightarrow> event list" where
  "broker_calls cfg env p =
     (if mqtt_connect env \<noteq> None then [MQTTConnect]
      else if mqtt_publish env \<noteq> None then [MQTTConnect, MQTTPublish (MQTT_TOPIC cfg) p]
      else [MQTTConnect, MQTTPublish (MQTT_TOPIC cfg) p, MQTTDisconnect])"

subsection \<open>Variations of that cycle\<close>


definition config_units :: config where
  "config_units =
     config_py\<lparr>OPENWEATHERMAP_URL :=
       ''https://api.openweathermap.org/data/2.5/weather?lat={lat}&lon={lon}&units={units}''\<rparr>"

definition config_fahrenheit :: config where
  "config_fahrenheit = config_py\<lparr>FAHRENHEIT := True\<rparr>"

definition env_fetch_404 :: env where
  "env_fetch_404 = env_ok\<lparr>urequests_get := Inr \<lparr> status_code = 404, json = Inr body_ok \<rparr>\<rparr>"

definition body_no_pressure :: pyval where
  "body_no_pressure =
     PDict [''main'' \<mapsto> PDict [''temp'' \<mapsto> PNum (PFloat (28315 / 100)),
                                ''humidity'' \<mapsto> PNum (PInt 81)]]"

definition body_temp_text :: pyval where
  "body_temp_text =
     PDict [''main'' \<mapsto> PDict [''temp'' \<mapsto> PStr ''283.15'', ''humidity'' \<mapsto> PNum (PInt 81),
                                ''pressure'' \<mapsto> PNum (PInt 1012)]]"

definition env_temp_text :: env where
  "env_temp_text =
     env_ok\<lparr>urequests_get := Inr \<lparr> status_code = 200, json = Inr body_temp_text \<rparr>\<rparr>"

definition env_no_pressure :: env where
  "env_no_pressure =
     env_ok\<lparr>urequests_get := Inr \<lparr> status_code = 200, json = Inr body_no_pressure \<rparr>\<rparr>"

definition env_unreachable :: env where
  "env_unreachable = env_ok\<lparr>urequests_get := Inl ''ETIMEDOUT''\<rparr>"

definition env_broker_down :: env where
  "env_broker_down = env_ok\<lparr>mqtt_connect := Some ''ECONNREFUSED''\<rparr>"

definition env_publish_fails :: env where
  "env_publish_fails = env_ok\<lparr>mqtt_publish := Some ''ECONNRESET''\<rparr>"


definition env_debug :: env where
  "env_debug = env_ok\<lparr>debug_pin := (\<lambda>k. 0)\<rparr>"

definition ow_ok :: forecast_set where
  "ow_ok = \<lparr> ow_temp = PFloat 10, ow_hum = PNum (PInt 81), ow_pres = PNum (PInt 1012) \<rparr>"

definition sd_ok :: reading_set where
  "sd_ok = \<lparr> am2320_temp = PFloat 10, am2320_hum = PFloat 55, bmp180_temp = PFloat 11,
             bmp180_pres = PFloat 1013, bmp180_alt = PFloat 12, bh1750_lum = PFloat 300,
             bat_volt = PFloat (4191 / 2000) \<rparr>"

section \<open>Effects of the building blocks\<close>

lemmas io_defs = andthen_def next_do_def ret_def raise_def act_def call_unit_def call_val_def
  emit_def try_except_def minus_float_def format_kw_def

lemma acts_apply: "acts es w = (Inr (), w\<lparr>trace := trace w @ es\<rparr>)"
  by (induction es arbitrary: w) (simp_all add: io_defs)

lemma flash_apply:
  "flash cfg n w =
     (Inr (), w\<lparr>trace := trace w @
        concat (replicate n [PinValueSet (LED_PIN cfg) (LED_ON cfg), Sleep (1 / 2),
                             PinValueSet (LED_PIN cfg) (LED_OFF cfg), Sleep (1 / 2)])\<rparr>)"
  by (induction n arbitrary: w) (simp_all add: io_defs acts_apply)

lemma show_error_apply:
  "show_error cfg w = (Inr (), w\<lparr>trace := trace w @ show_error_events cfg\<rparr>)"
  by (simp add: show_error_def show_error_events_def io_defs flash_apply)

lemma debug_on_apply:
  "debug_on cfg env w =
     (Inr (debug_pin env (debug_reads w) = 0),
      w\<lparr>trace := trace w @ debug_on_events cfg, debug_reads := Suc (debug_reads w)\<rparr>)"
  by (simp add: debug_on_def pin_value_def debug_on_events_def io_defs)

lemma debug_print_apply:
  "debug_print cfg env es w =
     (Inr (),
      w\<lparr>trace := trace w @ debug_on_events cfg
                   @ (if debug_pin env (debug_reads w) = 0 then es else []),
        debug_reads := Suc (debug_reads w)\<rparr>)"
  by (simp add: debug_print_def debug_on_apply io_defs acts_apply)

lemma new_events_append: "trace w' = trace w @ es \<Longrightarrow> new_events w w' = es"
  by (simp add: new_events_def)

subsection \<open>The polling loop when the radio never connects\<close>

lemma wifi_wait_never:
  "\<forall>k. \<not> isconnected env k \<Longrightarrow>
   wifi_wait cfg env tries w =
     w\<lparr>trace := trace w @ concat (replicate (nat (MAX_TRIES cfg - tries)) poll_events)
                   @ [StaIsConnected],
       isconnected_calls := isconnected_calls w + nat (MAX_TRIES cfg - tries) + 1\<rparr>"
proof (induction cfg env tries w rule: wifi_wait.induct)
  case (1 cfg env tries w)
  have nc: "\<And>k. isconnected env k = False"
    using "1.prems" by simp
  let ?w1 = "emit StaIsConnected (w\<lparr>isconnected_calls := Suc (isconnected_calls w)\<rparr>)"
  let ?w2 = "emit (Sleep 1) (emit (PrintNoNewline ''.'') ?w1)"
  show ?case
  proof (cases "tries < MAX_TRIES cfg")
    case True
    then have n: "nat (MAX_TRIES cfg - tries) = Suc (nat (MAX_TRIES cfg - (tries + 1)))"
      by simp
    have ih: "wifi_wait cfg env (tries + 1) ?w2 =
       ?w2\<lparr>trace := trace ?w2
                 @ concat (replicate (nat (MAX_TRIES cfg - (tries + 1))) poll_events)
                 @ [StaIsConnected],
           isconnected_calls :=
             isconnected_calls ?w2 + nat (MAX_TRIES cfg - (tries + 1)) + 1\<rparr>"
      by (rule "1.IH"[of False ?w1]) (simp_all add: sta_isconnected_def nc True "1.prems")
    have step: "wifi_wait cfg env tries w = wifi_wait cfg env (tries + 1) ?w2"
      by (subst wifi_wait.simps) (simp add: sta_isconnected_def nc True)
    show ?thesis
      unfolding step ih n by (simp add: emit_def poll_events_def)
  next
    case False
    have "wifi_wait cfg env tries w = ?w1"
      by (subst wifi_wait.simps) (simp add: sta_isconnected_def nc False)
    then show ?thesis
      using False by (simp add: emit_def)
  qed
qed

lemma filter_concat_replicate:
  "filter P (concat (replicate n xs)) = concat (replicate n (filter P xs))"
  by (induction n) simp_all

lemma length_concat_replicate: "length (concat (replicate n xs)) = n * length xs"
  by (induction n) simp_all

lemma connect_wifi_never_apply:
  assumes "\<forall>k. \<not> isconnected env k"
  shows "connect_wifi cfg env w =
     (Inl (RuntimeError ''WiFi connection failed''),
      w\<lparr>trace := trace w @
           [ApActive False, StaIsConnected, Print ''connecting to WiFi network...'',
            StaActive True, StaConnect (SSID cfg) (PASS cfg)]
           @ concat (replicate (nat (MAX_TRIES cfg)) poll_events)
           @ [StaIsConnected, StaIsConnected, Print '''',
              PrintFormat ''no connection to {} network'' [AStr (SSID cfg)]],
         isconnected_calls := isconnected_calls w + nat (MAX_TRIES cfg) + 3\<rparr>)"
  using assms
  by (simp add: connect_wifi_def io_defs sta_isconnected_io_def sta_isconnected_def
      wifi_wait_never)

subsection \<open>What each stage can add to the trace\<close>

lemma onlyI:
  assumes "\<And>w. \<exists>es. trace (snd (m w)) = trace w @ es \<and> (\<forall>e \<in> set es. P e)"
  shows "only P m"
  using assms by (simp add: only_def)

lemma onlyD:
  assumes "only P m"
  obtains es where "trace (snd (m w)) = trace w @ es" and "\<forall>e \<in> set es. P e"
  using assms unfolding only_def by blast

lemma only_ret: "only P (ret x)"
  by (simp add: only_def ret_def)

lemma only_raise: "only P (raise e)"
  by (simp add: only_def raise_def)

lemma only_act: "P e \<Longrightarrow> only P (act e)"
  by (simp add: only_def act_def emit_def)

lemma only_acts: "\<forall>e \<in> set es. P e \<Longrightarrow> only P (acts es)"
  by (simp add: only_def acts_apply)

lemma only_call_unit: "P e \<Longrightarrow> only P (call_unit e r)"
  by (simp add: only_def call_unit_def emit_def split: option.splits)

lemma only_call_val: "P e \<Longrightarrow> only P (call_val e r)"
  by (simp add: only_def call_val_def emit_def split: sum.splits)

lemma only_subscript: "only P (subscript v k)"
  by (cases v) (simp_all add: only_ret only_raise split: option.splits)

lemma only_minus_float: "only P (minus_float v x)"
  by (simp add: minus_float_def only_ret only_raise split: option.splits)

lemma only_format_f: "only P (format_f v)"
  by (cases v) (simp_all add: only_ret only_raise)

lemma only_format_kw: "only P (format_kw env template kwargs)"
  by (simp add: format_kw_def only_ret only_raise split: sum.splits)

lemma only_andthen:
  assumes m: "only P m" and f: "\<And>x. only P (f x)"
  shows "only P (andthen m f)"
proof (rule onlyI)
  fix w
  obtain es where es: "trace (snd (m w)) = trace w @ es" "\<forall>e \<in> set es. P e"
    using m by (rule onlyD)
  show "\<exists>es. trace (snd (andthen m f w)) = trace w @ es \<and> (\<forall>e \<in> set es. P e)"
  proof (cases "m w")
    case (Pair r w')
    show ?thesis
    proof (cases r)
      case (Inl e)
      with Pair es show ?thesis by (auto simp: andthen_def)
    next
      case (Inr x)
      obtain es' where es': "trace (snd (f x w')) = trace w' @ es'" "\<forall>e \<in> set es'. P e"
        using f[of x] by (rule onlyD)
      have "trace (snd (andthen m f w)) = trace w @ (es @ es')"
        using Pair Inr es es' by (simp add: andthen_def)
      moreover have "\<forall>e \<in> set (es @ es'). P e"
        using es es' by auto
      ultimately show ?thesis by blast
    qed
  qed
qed

lemma only_next_do: "only P m \<Longrightarrow> only P n \<Longrightarrow> only P (next_do m n)"
  by (simp add: next_do_def only_andthen)

lemma only_try_except:
  assumes m: "only P m" and h: "\<And>e. only P (h e)"
  shows "only P (try_except m h)"
proof (rule onlyI)
  fix w
  obtain es where es: "trace (snd (m w)) = trace w @ es" "\<forall>e \<in> set es. P e"
    using m by (rule onlyD)
  show "\<exists>es. trace (snd (try_except m h w)) = trace w @ es \<and> (\<forall>e \<in> set es. P e)"
  proof (cases "m w")
    case (Pair r w')
    show ?thesis
    proof (cases r)
      case (Inr x)
      with Pair es show ?thesis by (auto simp: try_except_def)
    next
      case (Inl x)
      obtain es' where es': "trace (snd (h x w')) = trace w' @ es'" "\<forall>e \<in> set es'. P e"
        using h[of x] by (rule onlyD)
      have "trace (snd (try_except m h w)) = trace w @ (es @ es')"
        using Pair Inl es es' by (simp add: try_except_def)
      moreover have "\<forall>e \<in> set (es @ es'). P e"
        using es es' by auto
      ultimately show ?thesis by blast
    qed
  qed
qed

lemma only_if: "only P a \<Longrightarrow> only P b \<Longrightarrow> only P (if c then a else b)"
  by simp

lemma only_case_prod: "(\<And>a b. only P (f a b)) \<Longrightarrow> only P (case_prod f x)"
  by (cases x) simp

lemma only_show_error:
  "P (PinNew (LED_PIN cfg) Pin_OUT) \<Longrightarrow> P (PinValueSet (LED_PIN cfg) (LED_ON cfg))
   \<Longrightarrow> P (PinValueSet (LED_PIN cfg) (LED_OFF cfg)) \<Longrightarrow> P (Sleep (1 / 2))
   \<Longrightarrow> only P (show_error cfg)"
  by (simp add: only_def show_error_apply show_error_events_def)

lemma only_debug_on:
  "P (PinNew (DEBUG_PIN cfg) Pin_IN_PULL_UP) \<Longrightarrow> P (PinValueGet (DEBUG_PIN cfg))
   \<Longrightarrow> only P (debug_on cfg env)"
  by (simp add: only_def debug_on_apply debug_on_events_def)

lemma only_debug_print:
  "P (PinNew (DEBUG_PIN cfg) Pin_IN_PULL_UP) \<Longrightarrow> P (PinValueGet (DEBUG_PIN cfg))
   \<Longrightarrow> \<forall>e \<in> set es. P e \<Longrightarrow> only P (debug_print cfg env es)"
  by (simp add: only_def debug_print_apply debug_on_events_def)

lemma wifi_wait_trace:
  assumes "P StaIsConnected" "P (PrintNoNewline ''.'')" "P (Sleep 1)"
  shows "\<exists>es. trace (wifi_wait cfg env tries w) = trace w @ es \<and> (\<forall>e \<in> set es. P e)"
proof (induction cfg env tries w rule: wifi_wait.induct)
  case (1 cfg env tries w)
  let ?w1 = "emit StaIsConnected (w\<lparr>isconnected_calls := Suc (isconnected_calls w)\<rparr>)"
  let ?w2 = "emit (Sleep 1) (emit (PrintNoNewline ''.'') ?w1)"
  show ?case
  proof (cases "\<not> isconnected env (isconnected_calls w) \<and> tries < MAX_TRIES cfg")
    case True
    have "\<exists>es. trace (wifi_wait cfg env (tries + 1) ?w2) = trace ?w2 @ es \<and> (\<forall>e \<in> set es. P e)"
      by (rule "1.IH"[of "isconnected env (isconnected_calls w)" ?w1])
         (use True in \<open>simp_all add: sta_isconnected_def\<close>)
    then obtain es where es: "trace (wifi_wait cfg env (tries + 1) ?w2) = trace ?w2 @ es"
      "\<forall>e \<in> set es. P e" by blast
    have step: "wifi_wait cfg env tries w = wifi_wait cfg env (tries + 1) ?w2"
      using True by (subst wifi_wait.simps) (simp add: sta_isconnected_def)
    have "trace (wifi_wait cfg env tries w) = trace w @ (poll_events @ es)"
      unfolding step es by (simp add: emit_def poll_events_def)
    moreover have "\<forall>e \<in> set (poll_events @ es). P e"
      using es assms by (simp add: poll_events_def)
    ultimately show ?thesis by blast
  next
    case False
    have "wifi_wait cfg env tries w = ?w1"
      using False by (subst wifi_wait.simps) (auto simp add: sta_isconnected_def)
    then have "trace (wifi_wait cfg env tries w) = trace w @ [StaIsConnected]"
      by (simp add: emit_def)
    then show ?thesis using assms by simp
  qed
qed

lemma only_wifi_wait:
  "P StaIsConnected \<Longrightarrow> P (PrintNoNewline ''.'') \<Longrightarrow> P (Sleep 1)
   \<Longrightarrow> only P (\<lambda>w. (Inr (), wifi_wait cfg env tries w))"
  by (simp add: only_def wifi_wait_trace)

lemma only_sta_isconnected_io: "P StaIsConnected \<Longrightarrow> only P (sta_isconnected_io env)"
  by (simp add: only_def sta_isconnected_io_def sta_isconnected_def emit_def)

lemma only_scan: "P I2CScan \<Longrightarrow> only P (scan env)"
  by (simp add: only_def scan_def emit_def)

lemmas only_intros = only_ret only_raise only_act only_acts only_call_unit only_call_val
  only_subscript only_minus_float only_format_f only_format_kw only_andthen only_next_do
  only_try_except only_if only_case_prod only_show_error only_debug_on only_debug_print
  only_wifi_wait only_sta_isconnected_io only_scan

lemma connect_wifi_quiet: "only quiet (connect_wifi cfg env)"
  unfolding connect_wifi_def
  by (intro only_intros) (simp_all add: quiet_def)

lemma get_weather_data_quiet: "only quiet (get_weather_data cfg env)"
  unfolding get_weather_data_def
  by (intro only_intros) (simp_all add: quiet_def)

lemma get_sensor_readings_only:
  "only (\<lambda>e. \<not> publish_stage_event e \<and> \<not> power_event e) (get_sensor_readings cfg env)"
  unfolding get_sensor_readings_def am2320_section_def bmp180_section_def bh1750_section_def
    battery_section_def
  by (intro only_intros) simp_all

lemma log_readings_only:
  "only (\<lambda>e. \<not> sensor_stage_event e \<and> \<not> power_event e) (log_readings str cfg env ow sd rssi)"
  unfolding log_readings_def
  by (intro only_intros) simp_all

subsection \<open>The main program and the publisher, step by step\<close>

lemma on_exception_apply:
  "on_exception cfg exc w = (Inr (), w\<lparr>trace := trace w @ on_exception_events cfg exc\<rparr>)"
  by (simp add: on_exception_def on_exception_events_def io_defs show_error_apply)

lemma deepsleep_till_next_cycle_apply:
  "deepsleep_till_next_cycle cfg w =
     (InDeepsleep (INTERVAL cfg * 1000), w\<lparr>trace := trace w @ deepsleep_events cfg\<rparr>)"
  by (simp add: deepsleep_till_next_cycle_def deepsleep_events_def acts_apply del: acts.simps)

lemma run_failed:
  "stages str cfg env w = (Inl exc, w1) \<Longrightarrow>
   run str cfg env w = (Restarted, w1\<lparr>trace := trace w1 @ on_exception_events cfg exc\<rparr>)"
  by (simp add: run_def on_exception_apply)

lemma run_completed:
  "stages str cfg env w = (Inr u, w1) \<Longrightarrow>
   run str cfg env w =
     (if debug_pin env (debug_reads w1) = 0
      then (Returned,
            w1\<lparr>trace := trace w1 @ debug_on_events cfg, debug_reads := Suc (debug_reads w1)\<rparr>)
      else (InDeepsleep (INTERVAL cfg * 1000),
            w1\<lparr>trace := trace w1 @ debug_on_events cfg @ deepsleep_events cfg,
               debug_reads := Suc (debug_reads w1)\<rparr>))"
  by (simp add: run_def debug_on_apply deepsleep_till_next_cycle_apply)

lemma log_readings_apply:
  "log_readings str cfg env ow sd rssi w =
     (Inr (),
      w\<lparr>trace := trace w
           @ [Print ''Upload readings to MQTT broker'',
              MQTTClientNew ''effevees_weerstation'' (MQTT_HOST cfg) 30]
           @ broker_calls cfg env (payload str cfg ow sd rssi)
           @ (case broker_failure env of
                None \<Rightarrow> []
              | Some x \<Rightarrow> PrintException (LibError x) # show_error_events cfg)
           @ debug_on_events cfg
           @ (if debug_pin env (debug_reads w) = 0
              then [PrintFormat ''MQTT publish : {}'' [AStr (payload str cfg ow sd rssi)]]
              else []),
        debug_reads := Suc (debug_reads w)\<rparr>)"
  by (simp add: log_readings_def io_defs show_error_apply debug_print_apply broker_calls_def
      broker_failure_def split: option.splits)

lemma stages_fetch_failed:
  "connect_wifi cfg env w = (Inr rssi, w1) \<Longrightarrow> get_weather_data cfg env w1 = (Inl e, w2)
   \<Longrightarrow> stages str cfg env w = (Inl e, w2)"
  by (simp add: stages_def andthen_def)

lemma stages_all:
  "connect_wifi cfg env w = (Inr rssi, w1) \<Longrightarrow> get_weather_data cfg env w1 = (Inr ow, w2)
   \<Longrightarrow> get_sensor_readings cfg env w2 = (Inr sd, w3)
   \<Longrightarrow> stages str cfg env w = log_readings str cfg env ow sd rssi w3"
  by (simp add: stages_def andthen_def)

lemma only_trace:
  assumes "only P m" and "m w = (r, w')"
  obtains es where "trace w' = trace w @ es" and "\<forall>e \<in> set es. P e"
  using onlyD[OF assms(1), of w] assms(2) by auto

subsection \<open>The forecast fetcher, case by case\<close>

lemma connect_wifi_connected:
  assumes "isconnected env (isconnected_calls w)" "isconnected env (Suc (isconnected_calls w))"
  shows "connect_wifi cfg env w =
     (Inr (status_rssi env),
      w\<lparr>trace := trace w @
           [ApActive False, StaIsConnected, StaIsConnected, Print '''', StaIfconfig,
            PrintFormat ''connected to {} network with ip address {}''
              [AStr (SSID cfg), AStr (ifconfig_ip env)],
            StaStatusRssi],
         isconnected_calls := Suc (Suc (isconnected_calls w))\<rparr>)"
  using assms
  by (simp add: connect_wifi_def io_defs sta_isconnected_io_def sta_isconnected_def)

lemma subscript_apply:
  "subscript v k w =
     (case member v k of
        Some x \<Rightarrow> (Inr x, w)
      | None \<Rightarrow> (Inl (if is_dict v then KeyError k else TypeError), w))"
  by (cases v) (simp_all add: ret_def raise_def split: option.splits)

lemma format_f_apply:
  "format_f v w = (if formattable v then Inr () else Inl (format_f_exn v), w)"
  by (cases v) (simp_all add: ret_def raise_def)

lemma member_is_dict: "member v k = Some x \<Longrightarrow> is_dict v"
  by (cases v) simp_all

lemma get_weather_data_format:
  assumes "str_format env (OPENWEATHERMAP_URL cfg)
             [(''lat'', OPENWEATHERMAP_LAT cfg), (''lon'', OPENWEATHERMAP_LON cfg),
              (''api'', OPENWEATHERMAP_API cfg)] = Inl x"
  shows "get_weather_data cfg env w =
           (Inl (format_exn x), w\<lparr>trace := trace w @ [Print ''Invoking OpenWeather URL webhook'']\<rparr>)"
  using assms by (simp add: get_weather_data_def io_defs)

lemma get_weather_data_transport:
  assumes "str_format env (OPENWEATHERMAP_URL cfg)
             [(''lat'', OPENWEATHERMAP_LAT cfg), (''lon'', OPENWEATHERMAP_LON cfg),
              (''api'', OPENWEATHERMAP_API cfg)] = Inr url"
    and "urequests_get env = Inl x"
  shows "fst (get_weather_data cfg env w) = Inl (LibError x)"
  using assms by (simp add: get_weather_data_def io_defs)

lemma get_weather_data_status:
  assumes "str_format env (OPENWEATHERMAP_URL cfg)
             [(''lat'', OPENWEATHERMAP_LAT cfg), (''lon'', OPENWEATHERMAP_LON cfg),
              (''api'', OPENWEATHERMAP_API cfg)] = Inr url"
    and "urequests_get env = Inr resp" "400 \<le> status_code resp"
  shows "fst (get_weather_data cfg env w) = Inl (RuntimeError ''Webhook OpenWeather URL failed'')"
  using assms by (simp add: get_weather_data_def io_defs)

lemma get_weather_data_json:
  assumes "str_format env (OPENWEATHERMAP_URL cfg)
             [(''lat'', OPENWEATHERMAP_LAT cfg), (''lon'', OPENWEATHERMAP_LON cfg),
              (''api'', OPENWEATHERMAP_API cfg)] = Inr url"
    and "urequests_get env = Inr resp" "status_code resp < 400" "json resp = Inl x"
  shows "fst (get_weather_data cfg env w) = Inl (LibError x)"
  using assms by (simp add: get_weather_data_def io_defs)

lemma get_weather_data_parsed:
  assumes "str_format env (OPENWEATHERMAP_URL cfg)
             [(''lat'', OPENWEATHERMAP_LAT cfg), (''lon'', OPENWEATHERMAP_LON cfg),
              (''api'', OPENWEATHERMAP_API cfg)] = Inr url"
    and "urequests_get env = Inr resp" "status_code resp < 400" "json resp = Inr today"
  shows "fst (get_weather_data cfg env w) =
     (case member today ''main'' of
        None \<Rightarrow> Inl (if is_dict today then KeyError ''main'' else TypeError)
      | Some m \<Rightarrow>
          (case member m ''temp'' of
             None \<Rightarrow> Inl (if is_dict m then KeyError ''temp'' else TypeError)
           | Some tv \<Rightarrow>
               (case as_number tv of
                  None \<Rightarrow> Inl TypeError
                | Some t \<Rightarrow>
                    (case member m ''humidity'' of
                       None \<Rightarrow> Inl (KeyError ''humidity'')
                     | Some h \<Rightarrow>
                         (case member m ''pressure'' of
                            None \<Rightarrow> Inl (KeyError ''pressure'')
                          | Some p \<Rightarrow>
                              if debug_pin env (Suc (debug_reads w)) = 0 \<and> \<not> formattable h
                              then Inl (format_f_exn h)
                              else if debug_pin env (Suc (debug_reads w)) = 0
                                      \<and> \<not> formattable p
                              then Inl (format_f_exn p)
                              else Inr \<lparr> ow_temp = temperature_2_unit cfg
                                                      (py_sub t (PFloat (27315 / 100))),
                                         ow_hum = h, ow_pres = p \<rparr>)))))"
  using assms
  by (auto simp add: get_weather_data_def io_defs debug_print_apply debug_on_apply
      subscript_apply format_f_apply dest: member_is_dict split: option.splits)

lemma format_f_exn_cases: "format_f_exn v = TypeError \<or> format_f_exn v = ValueError"
  by (cases v) simp_all

lemma get_weather_data_outcome:
  assumes "str_format env (OPENWEATHERMAP_URL cfg)
             [(''lat'', OPENWEATHERMAP_LAT cfg), (''lon'', OPENWEATHERMAP_LON cfg),
              (''api'', OPENWEATHERMAP_API cfg)] = Inr url"
    and "urequests_get env = Inr resp" "status_code resp < 400" "json resp = Inr today"
  shows "missing_key today \<Longrightarrow>
           (\<exists>k. fst (get_weather_data cfg env w) = Inl (KeyError k))
           \<or> fst (get_weather_data cfg env w) = Inl TypeError"
    and "\<not> missing_key today \<Longrightarrow> \<not> temp_number today \<Longrightarrow>
           fst (get_weather_data cfg env w) = Inl TypeError"
    and "\<not> missing_key today \<Longrightarrow> temp_number today \<Longrightarrow>
         debug_pin env (Suc (debug_reads w)) = 0 \<Longrightarrow> \<not> readings_formattable today \<Longrightarrow>
           fst (get_weather_data cfg env w) = Inl TypeError
           \<or> fst (get_weather_data cfg env w) = Inl ValueError"
    and "\<not> missing_key today \<Longrightarrow> temp_number today \<Longrightarrow>
         debug_pin env (Suc (debug_reads w)) \<noteq> 0 \<or> readings_formattable today \<Longrightarrow>
           \<exists>fs. fst (get_weather_data cfg env w) = Inr fs
                \<and> main_member today ''humidity'' = Some (ow_hum fs)
                \<and> main_member today ''pressure'' = Some (ow_pres fs)"
proof -
  note p = get_weather_data_parsed[OF assms, of w]
  show "missing_key today \<Longrightarrow>
           (\<exists>k. fst (get_weather_data cfg env w) = Inl (KeyError k))
           \<or> fst (get_weather_data cfg env w) = Inl TypeError"
    unfolding p by (auto simp: missing_key_def main_member_def split: option.splits)
  show "\<not> missing_key today \<Longrightarrow> \<not> temp_number today \<Longrightarrow>
           fst (get_weather_data cfg env w) = Inl TypeError"
    unfolding p
    by (auto simp: missing_key_def temp_number_def main_member_def split: option.splits)
  show "\<not> missing_key today \<Longrightarrow> temp_number today \<Longrightarrow>
         debug_pin env (Suc (debug_reads w)) = 0 \<Longrightarrow> \<not> readings_formattable today \<Longrightarrow>
           fst (get_weather_data cfg env w) = Inl TypeError
           \<or> fst (get_weather_data cfg env w) = Inl ValueError"
    unfolding p
    using format_f_exn_cases
    by (auto simp: missing_key_def temp_number_def readings_formattable_def main_member_def
        split: option.splits)
  show "\<not> missing_key today \<Longrightarrow> temp_number today \<Longrightarrow>
         debug_pin env (Suc (debug_reads w)) \<noteq> 0 \<or> readings_formattable today \<Longrightarrow>
           \<exists>fs. fst (get_weather_data cfg env w) = Inr fs
                \<and> main_member today ''humidity'' = Some (ow_hum fs)
                \<and> main_member today ''pressure'' = Some (ow_pres fs)"
    unfolding p
    by (auto simp: missing_key_def temp_number_def readings_formattable_def main_member_def
        split: option.splits)
qed

subsection \<open>The sensor collector, section by section\<close>

lemma scan_apply:
  "scan env w =
     (Inr (i2c_scan env (scan_calls w)),
      w\<lparr>trace := trace w @ [I2CScan], scan_calls := Suc (scan_calls w)\<rparr>)"
  by (simp add: scan_def emit_def)

lemmas section_defs = am2320_section_def bmp180_section_def bh1750_section_def
  battery_section_def


lemma am2320_section_scans:
  "fst (am2320_section cfg env w) = Inr r \<Longrightarrow>
   scan_calls (snd (am2320_section cfg env w)) = Suc (Suc (scan_calls w))"
  by (simp add: am2320_section_def io_defs scan_apply debug_print_apply
      split: option.splits if_splits)







lemma get_sensor_readings_ok:
  assumes "am2320_init env = None" "92 \<in> set (i2c_scan env (Suc (scan_calls w)))"
    "am2320_measure env = None"
    "bmp180_init env = None" "119 \<in> set (i2c_scan env (Suc (Suc (scan_calls w))))"
    "bmp180_temperature env = Inr bt" "bmp180_pressure env = Inr bp"
    "bmp180_altitude env = Inr ba"
    "bh1750_init env = None" "35 \<in> set (i2c_scan env (Suc (Suc (Suc (scan_calls w)))))"
    "bh1750_luminance env = Inr l"
  shows "fst (get_sensor_readings cfg env w) =
     Inr \<lparr> am2320_temp = temperature_2_unit cfg (am2320_temperature env),
           am2320_hum = am2320_humidity env,
           bmp180_temp = temperature_2_unit cfg bt,
           bmp180_pres = py_truediv bp (PInt 100),
           bmp180_alt = ba,
           bh1750_lum = l,
           bat_volt = py_mul (py_mul (PFloat (33 / 10)) (PFloat (127 / 100)))
                        (py_truediv (PInt (int (adc_read_u16 env))) (PInt (2 ^ 16))) \<rparr>"
  using assms
  by (simp add: get_sensor_readings_def section_defs io_defs scan_apply debug_print_apply
      acts_apply del: acts.simps)


subsection \<open>The payload and what is published\<close>










subsection \<open>The end of a cycle\<close>

lemma pair_of_fst: "fst p = a \<Longrightarrow> p = (a, snd p)"
  by (cases p) simp

lemma only_mono: "only P m \<Longrightarrow> (\<And>e. P e \<Longrightarrow> Q e) \<Longrightarrow> only Q m"
  unfolding only_def by blast

lemma stages_no_power: "only (\<lambda>e. \<not> power_event e) (stages str cfg env)"
  unfolding stages_def
proof (intro only_andthen)
  show "only (\<lambda>e. \<not> power_event e) (connect_wifi cfg env)"
    by (rule only_mono[OF connect_wifi_quiet]) (simp add: quiet_def)
  show "only (\<lambda>e. \<not> power_event e) (get_weather_data cfg env)"
    by (rule only_mono[OF get_weather_data_quiet]) (simp add: quiet_def)
  show "only (\<lambda>e. \<not> power_event e) (get_sensor_readings cfg env)"
    by (rule only_mono[OF get_sensor_readings_only]) simp
  show "only (\<lambda>e. \<not> power_event e) (log_readings str cfg env ow sd rssi)" for ow sd rssi
    by (rule only_mono[OF log_readings_only]) simp
qed

lemma run_completed_power:
  assumes "stages str cfg env w = (Inr u, w1)"
  shows "(debug_pin env (debug_reads w1) = 0 \<longrightarrow>
            fst (run str cfg env w) = Returned
            \<and> new_events w1 (snd (run str cfg env w)) = debug_on_events cfg
            \<and> filter power_event (new_events w (snd (run str cfg env w))) = [])
     \<and> (debug_pin env (debug_reads w1) \<noteq> 0 \<longrightarrow>
            fst (run str cfg env w) = InDeepsleep (INTERVAL cfg * 1000)
            \<and> new_events w1 (snd (run str cfg env w))
                = debug_on_events cfg @ deepsleep_events cfg
            \<and> filter power_event (new_events w (snd (run str cfg env w)))
                = [MachineDeepsleep (INTERVAL cfg * 1000)])"
proof -
  obtain es where es: "trace w1 = trace w @ es" "\<forall>e \<in> set es. \<not> power_event e"
    using stages_no_power assms by (rule only_trace)
  have f: "filter power_event es = []"
    using es(2) by (simp add: filter_empty_conv)
  show ?thesis
    by (simp add: run_completed[OF assms] new_events_def es(1) f debug_on_events_def
        deepsleep_events_def)
qed

lemma run_after_three_stages:
  assumes "connect_wifi cfg env w = (Inr rssi, w1)"
    and "get_weather_data cfg env w1 = (Inr ow, w2)"
    and "get_sensor_readings cfg env w2 = (Inr sd, w3)"
  shows "fst (run str cfg env w) =
           (if debug_pin env (Suc (debug_reads w3)) = 0 then Returned
            else InDeepsleep (INTERVAL cfg * 1000))
     \<and> filter power_event (new_events w (snd (run str cfg env w))) =
           (if debug_pin env (Suc (debug_reads w3)) = 0 then []
            else [MachineDeepsleep (INTERVAL cfg * 1000)])"
proof -
  let ?w4 = "snd (log_readings str cfg env ow sd rssi w3)"
  have s: "stages str cfg env w = (Inr (), ?w4)"
    by (simp add: stages_all[OF assms] log_readings_apply)
  have d: "debug_reads ?w4 = Suc (debug_reads w3)"
    by (simp add: log_readings_apply)
  show ?thesis
    using run_completed_power[OF s] by (simp add: d)
qed

subsection \<open>Running the stages on the example cycle\<close>

lemma connect_wifi_example:
  assumes "isconnected env = (\<lambda>k. True)" "status_rssi env = r"
  shows "fst (connect_wifi cfg env w) = Inr r"
  using connect_wifi_connected[of env w cfg] assms by simp

lemma format_fields_config_py:
  "format_fields (OPENWEATHERMAP_URL config_py)
     [(''lat'', OPENWEATHERMAP_LAT config_py), (''lon'', OPENWEATHERMAP_LON config_py),
      (''api'', OPENWEATHERMAP_API config_py)] = Inr url_py"
  by (simp add: format_fields_def config_py_def url_py_def)

lemma get_weather_data_example:
  assumes "str_format env = format_fields"
    and "urequests_get env = Inr \<lparr> status_code = 200, json = Inr body_ok \<rparr>"
  shows "fst (get_weather_data config_py env w) = Inr ow_ok"
proof -
  have f: "str_format env (OPENWEATHERMAP_URL config_py)
     [(''lat'', OPENWEATHERMAP_LAT config_py), (''lon'', OPENWEATHERMAP_LON config_py),
      (''api'', OPENWEATHERMAP_API config_py)] = Inr url_py"
    by (simp add: assms(1) format_fields_config_py)
  show ?thesis
    using get_weather_data_parsed[OF f assms(2), of body_ok w]
    by (simp add: body_ok_def main_ok_def ow_ok_def temperature_2_unit_def config_py_def)
qed

lemma get_sensor_readings_example:
  assumes "env = env_ok\<lparr>mqtt_connect := c, debug_pin := d\<rparr>"
  shows "fst (get_sensor_readings config_py env w) = Inr sd_ok"
proof -
  have "fst (get_sensor_readings config_py env w) =
     Inr \<lparr> am2320_temp = temperature_2_unit config_py (am2320_temperature env),
           am2320_hum = am2320_humidity env,
           bmp180_temp = temperature_2_unit config_py (PFloat 11),
           bmp180_pres = py_truediv (PInt 101300) (PInt 100),
           bmp180_alt = PFloat 12,
           bh1750_lum = PFloat 300,
           bat_volt = py_mul (py_mul (PFloat (33 / 10)) (PFloat (127 / 100)))
                        (py_truediv (PInt (int (adc_read_u16 env))) (PInt (2 ^ 16))) \<rparr>"
    by (rule get_sensor_readings_ok) (simp_all add: assms env_ok_def)
  then show ?thesis
    by (simp add: assms env_ok_def sd_ok_def temperature_2_unit_def config_py_def
        py_truediv_def)
qed

subsection \<open>The banners of the two later stages\<close>

lemma next_do_act_first:
  assumes "only P m"
  shows "\<exists>es. new_events w (snd (next_do (act e) m w)) = e # es"
proof -
  obtain es where "trace (snd (m (emit e w))) = trace (emit e w) @ es"
    using assms by (rule onlyD)
  then show ?thesis
    by (simp add: next_do_def andthen_def act_def emit_def new_events_def)
qed

lemma get_sensor_readings_announces:
  "\<exists>es. new_events w (snd (get_sensor_readings cfg env w))
          = Print ''Getting sensor readings'' # es"
  unfolding get_sensor_readings_def section_defs
  by (rule next_do_act_first[where P = "\<lambda>e. True"]) (intro only_intros; simp)

lemma log_readings_announces:
  "\<exists>es. new_events w (snd (log_readings str cfg env ow sd rssi w))
          = Print ''Upload readings to MQTT broker'' # es"
  by (simp add: log_readings_apply new_events_def)

section \<open>The claims\<close>

subsection \<open>The publisher and the failure policy\<close>

text \<open>
  Claim C1, as stated, fails. On the example cycle with the broker refusing the connection,
  \<open>log_readings\<close> returns normally and \<open>run\<close> ends in deep sleep for 900000 ms: the
  failure of the publish is not raised to \<open>run\<close> and the cycle does not restart.
\<close>

theorem publish_failure_propagates_counterexample:
  "mqtt_connect env_broker_down = Some ''ECONNREFUSED''
   \<and> fst (log_readings str_hidden config_py env_broker_down ow_ok sd_ok (PInt (- 60)) boot)
       = Inr ()
   \<and> fst (run str_hidden config_py env_broker_down boot) \<noteq> Restarted
   \<and> fst (run str_hidden config_py env_broker_down boot) = InDeepsleep 900000"
proof -
  let ?E = env_broker_down
  let ?w1 = "snd (connect_wifi config_py ?E boot)"
  let ?w2 = "snd (get_weather_data config_py ?E ?w1)"
  let ?w3 = "snd (get_sensor_readings config_py ?E ?w2)"
  have c: "connect_wifi config_py ?E boot = (Inr (PInt (- 60)), ?w1)"
    by (rule pair_of_fst, rule connect_wifi_example)
       (simp_all add: env_broker_down_def env_ok_def)
  have g: "get_weather_data config_py ?E ?w1 = (Inr ow_ok, ?w2)"
    by (rule pair_of_fst, rule get_weather_data_example)
       (simp_all add: env_broker_down_def env_ok_def)
  have r: "get_sensor_readings config_py ?E ?w2 = (Inr sd_ok, ?w3)"
    by (rule pair_of_fst,
        rule get_sensor_readings_example[where c = "Some ''ECONNREFUSED''" and d = "\<lambda>k. 1"])
       (simp add: env_broker_down_def env_ok_def)
  have p: "debug_pin ?E (Suc (debug_reads ?w3)) \<noteq> 0"
    by (simp add: env_broker_down_def env_ok_def)
  have o: "fst (run str_hidden config_py ?E boot) = InDeepsleep 900000"
    using run_after_three_stages[OF c g r, of str_hidden] p by (simp add: config_py_def)
  show ?thesis
    using o by (simp add: log_readings_apply env_broker_down_def)
qed

text \<open>
  Claim C1, amended. When a call of the broker client fails during connect, publish or
  disconnect, \<open>log_readings\<close> does not raise: the calls after the failing one are skipped,
  the handler inside \<open>log_readings\<close> prints the exception and signals it with
  \<open>show_error\<close>, and \<open>log_readings\<close> goes on to its debug message and returns.
  The failure does not reach \<open>run\<close>: when the three stages before have succeeded, the
  body of the \<^verbatim>\<open>try\<close> completes and \<open>run\<close> does not restart the machine.
\<close>

theorem publish_failure_is_reported_not_raised:
  assumes "broker_failure env = Some x"
  shows "log_readings str cfg env ow sd rssi w3 =
     (Inr (),
      w3\<lparr>trace := trace w3
           @ [Print ''Upload readings to MQTT broker'',
              MQTTClientNew ''effevees_weerstation'' (MQTT_HOST cfg) 30]
           @ broker_calls cfg env (payload str cfg ow sd rssi)
           @ PrintException (LibError x) # show_error_events cfg
           @ debug_on_events cfg
           @ (if debug_pin env (debug_reads w3) = 0
              then [PrintFormat ''MQTT publish : {}'' [AStr (payload str cfg ow sd rssi)]]
              else []),
         debug_reads := Suc (debug_reads w3)\<rparr>)
   \<and> (connect_wifi cfg env w = (Inr rssi, w1) \<longrightarrow>
      get_weather_data cfg env w1 = (Inr ow, w2) \<longrightarrow>
      get_sensor_readings cfg env w2 = (Inr sd, w3) \<longrightarrow>
        fst (stages str cfg env w) = Inr () \<and> fst (run str cfg env w) \<noteq> Restarted)"
proof (intro conjI impI)
  show "log_readings str cfg env ow sd rssi w3 =
     (Inr (),
      w3\<lparr>trace := trace w3
           @ [Print ''Upload readings to MQTT broker'',
              MQTTClientNew ''effevees_weerstation'' (MQTT_HOST cfg) 30]
           @ broker_calls cfg env (payload str cfg ow sd rssi)
           @ PrintException (LibError x) # show_error_events cfg
           @ debug_on_events cfg
           @ (if debug_pin env (debug_reads w3) = 0
              then [PrintFormat ''MQTT publish : {}'' [AStr (payload str cfg ow sd rssi)]]
              else []),
         debug_reads := Suc (debug_reads w3)\<rparr>)"
    by (simp add: log_readings_apply assms)
next
  assume a: "connect_wifi cfg env w = (Inr rssi, w1)"
    "get_weather_data cfg env w1 = (Inr ow, w2)"
    "get_sensor_readings cfg env w2 = (Inr sd, w3)"
  show "fst (stages str cfg env w) = Inr ()"
    by (simp add: stages_all[OF a] log_readings_apply)
  show "fst (run str cfg env w) \<noteq> Restarted"
    using run_after_three_stages[OF a, of str] by simp
qed

theorem publish_failure_is_reported_not_raised_witness:
  "broker_failure env_broker_down = Some ''ECONNREFUSED''
   \<and> new_events boot
        (snd (log_readings str_hidden config_py env_broker_down ow_ok sd_ok (PInt (- 60)) boot))
       = [Print ''Upload readings to MQTT broker'',
          MQTTClientNew ''effevees_weerstation'' ''<IP address MQTT host>'' 30,
          MQTTConnect,
          PrintException (LibError ''ECONNREFUSED'')]
         @ show_error_events config_py @ debug_on_events config_py
   \<and> fst (log_readings str_hidden config_py env_broker_down ow_ok sd_ok (PInt (- 60)) boot)
       = Inr ()"
proof -
  have b: "broker_failure env_broker_down = Some ''ECONNREFUSED''"
    by (simp add: broker_failure_def env_broker_down_def)
  have h: "MQTT_HOST config_py = ''<IP address MQTT host>''"
    by (simp add: config_py_def)
  have d: "debug_pin env_broker_down (debug_reads boot) \<noteq> 0"
    by (simp add: env_broker_down_def env_ok_def)
  have m: "broker_calls config_py env_broker_down p = [MQTTConnect]" for p
    by (simp add: broker_calls_def env_broker_down_def)
  note t = publish_failure_is_reported_not_raised[OF b, of str_hidden config_py ow_ok sd_ok
      "PInt (- 60)" boot boot boot boot]
  have l: "log_readings str_hidden config_py env_broker_down ow_ok sd_ok (PInt (- 60)) boot =
     (Inr (),
      boot\<lparr>trace := trace boot
           @ [Print ''Upload readings to MQTT broker'',
              MQTTClientNew ''effevees_weerstation'' (MQTT_HOST config_py) 30]
           @ broker_calls config_py env_broker_down
               (payload str_hidden config_py ow_ok sd_ok (PInt (- 60)))
           @ PrintException (LibError ''ECONNREFUSED'') # show_error_events config_py
           @ debug_on_events config_py
           @ (if debug_pin env_broker_down (debug_reads boot) = 0
              then [PrintFormat ''MQTT publish : {}''
                      [AStr (payload str_hidden config_py ow_ok sd_ok (PInt (- 60)))]]
              else []),
         debug_reads := Suc (debug_reads boot)\<rparr>)"
    using t by blast
  show ?thesis
    using b d by (simp add: l m h new_events_def)
qed

subsection \<open>The cycle controller\<close>

text \<open>
  Claim C2. When the network is joined and \<open>get_weather_data\<close> fails, \<open>run\<close> ends
  in the restart, and nothing it did in that cycle is an event of \<open>get_sensor_readings\<close>
  or of \<open>log_readings\<close>: neither stage is invoked, and nothing is published. (Each
  of the two stages, once invoked, begins by printing its banner, which is such an event.)
\<close>

theorem fetch_failure_skips_later_stages:
  assumes wifi: "connect_wifi cfg env w = (Inr rssi, w1)"
    and fetch: "fst (get_weather_data cfg env w1) = Inl exc"
  shows "fst (run str cfg env w) = Restarted
    \<and> (\<forall>e \<in> set (new_events w (snd (run str cfg env w))).
          \<not> sensor_stage_event e \<and> \<not> publish_stage_event e)
    \<and> published (new_events w (snd (run str cfg env w))) = []
    \<and> (\<exists>es. new_events w' (snd (get_sensor_readings cfg env w'))
               = Print ''Getting sensor readings'' # es)
    \<and> (\<exists>es. new_events w' (snd (log_readings str cfg env ow sd rssi' w'))
               = Print ''Upload readings to MQTT broker'' # es)"
proof -
  obtain w2 where f: "get_weather_data cfg env w1 = (Inl exc, w2)"
    using fetch by (cases "get_weather_data cfg env w1") simp
  obtain es1 where es1: "trace w1 = trace w @ es1" "\<forall>e \<in> set es1. quiet e"
    using connect_wifi_quiet wifi by (rule only_trace)
  obtain es2 where es2: "trace w2 = trace w1 @ es2" "\<forall>e \<in> set es2. quiet e"
    using get_weather_data_quiet f by (rule only_trace)
  have r: "run str cfg env w =
             (Restarted, w2\<lparr>trace := trace w2 @ on_exception_events cfg exc\<rparr>)"
    using stages_fetch_failed[OF wifi f] by (rule run_failed)
  have new: "new_events w (snd (run str cfg env w)) = es1 @ es2 @ on_exception_events cfg exc"
    by (simp add: r new_events_def es1 es2)
  have q: "\<forall>e \<in> set (es1 @ es2 @ on_exception_events cfg exc).
             \<not> sensor_stage_event e \<and> \<not> publish_stage_event e"
    using es1 es2
    by (auto simp: quiet_def on_exception_events_def show_error_events_def)
  have p: "published es = []" if "\<forall>e \<in> set es. \<not> publish_stage_event e" for es
    using that by (induction es rule: published.induct) simp_all
  have pub: "published (es1 @ es2 @ on_exception_events cfg exc) = []"
    by (rule p) (use q in blast)
  have a: "fst (run str cfg env w) = Restarted"
    by (simp add: r)
  show ?thesis
    unfolding new
    using a q pub get_sensor_readings_announces[of w' cfg env]
      log_readings_announces[of w' str cfg env ow sd rssi']
    by blast
qed

theorem fetch_failure_skips_later_stages_witness:
  "connect_wifi config_py env_fetch_404 boot
     = (Inr (PInt (- 60)), snd (connect_wifi config_py env_fetch_404 boot))
   \<and> fst (get_weather_data config_py env_fetch_404
             (snd (connect_wifi config_py env_fetch_404 boot)))
       = Inl (RuntimeError ''Webhook OpenWeather URL failed'')
   \<and> fst (run str_hidden config_py env_fetch_404 boot) = Restarted
   \<and> filter (\<lambda>e. sensor_stage_event e \<or> publish_stage_event e)
         (new_events boot (snd (run str_hidden config_py env_fetch_404 boot))) = []
   \<and> published (new_events boot (snd (run str_hidden config_py env_fetch_404 boot))) = []"
proof -
  have c: "connect_wifi config_py env_fetch_404 boot
     = (Inr (PInt (- 60)), snd (connect_wifi config_py env_fetch_404 boot))"
    by (rule pair_of_fst, rule connect_wifi_example)
       (simp_all add: env_fetch_404_def env_ok_def)
  have f: "fst (get_weather_data config_py env_fetch_404
             (snd (connect_wifi config_py env_fetch_404 boot)))
       = Inl (RuntimeError ''Webhook OpenWeather URL failed'')"
    by (rule get_weather_data_status[where url = url_py
          and resp = "\<lparr> status_code = 404, json = Inr body_ok \<rparr>"])
       (simp_all add: env_fetch_404_def env_ok_def format_fields_config_py)
  note t = fetch_failure_skips_later_stages[OF c f, of str_hidden]
  have q: "filter (\<lambda>e. sensor_stage_event e \<or> publish_stage_event e)
         (new_events boot (snd (run str_hidden config_py env_fetch_404 boot))) = []"
    using t unfolding filter_empty_conv by blast
  show ?thesis
    using c f t q by blast
qed

subsection \<open>The network session\<close>

text \<open>
  Claim C3. When \<^verbatim>\<open>isconnected()\<close> never answers true, \<open>connect_wifi\<close> raises
  \<^verbatim>\<open>RuntimeError('WiFi connection failed')\<close>, and what it did before is exactly: one
  connect request, then \<open>MAX_TRIES\<close> turns of the loop, each a poll, a dot and a wait of
  one second, then the poll that ends the loop and the poll of the final test. So it issues
  one connect request and waits one second exactly \<open>MAX_TRIES\<close> times (not at all when
  \<open>MAX_TRIES\<close> is not positive).
\<close>

theorem connect_wifi_never_connected:
  assumes "\<forall>k. \<not> isconnected env k"
  shows "fst (connect_wifi cfg env w) = Inl (RuntimeError ''WiFi connection failed'')
    \<and> new_events w (snd (connect_wifi cfg env w)) =
         [ApActive False, StaIsConnected, Print ''connecting to WiFi network...'',
          StaActive True, StaConnect (SSID cfg) (PASS cfg)]
         @ concat (replicate (nat (MAX_TRIES cfg)) poll_events)
         @ [StaIsConnected, StaIsConnected, Print '''',
            PrintFormat ''no connection to {} network'' [AStr (SSID cfg)]]
    \<and> length (filter connect_request (new_events w (snd (connect_wifi cfg env w)))) = 1
    \<and> length (filter poll_wait (new_events w (snd (connect_wifi cfg env w))))
        = nat (MAX_TRIES cfg)"
  by (simp add: connect_wifi_never_apply[OF assms] new_events_def filter_concat_replicate
      length_concat_replicate poll_events_def)

theorem connect_wifi_never_connected_witness:
  "(\<forall>k. \<not> isconnected (env_ok\<lparr>isconnected := (\<lambda>k. False)\<rparr>) k)
   \<and> fst (connect_wifi config_py (env_ok\<lparr>isconnected := (\<lambda>k. False)\<rparr>) boot)
       = Inl (RuntimeError ''WiFi connection failed'')
   \<and> length (filter poll_wait (new_events boot
        (snd (connect_wifi config_py (env_ok\<lparr>isconnected := (\<lambda>k. False)\<rparr>) boot)))) = 20"
proof -
  have h: "\<forall>k. \<not> isconnected (env_ok\<lparr>isconnected := (\<lambda>k. False)\<rparr>) k" by simp
  have m: "MAX_TRIES config_py = 20" by (simp add: config_py_def)
  note t = connect_wifi_never_connected[OF h, of config_py boot, unfolded m]
  from t have a:
    "fst (connect_wifi config_py (env_ok\<lparr>isconnected := (\<lambda>k. False)\<rparr>) boot)
       = Inl (RuntimeError ''WiFi connection failed'')"
    by blast
  from t have b:
    "length (filter poll_wait (new_events boot
        (snd (connect_wifi config_py (env_ok\<lparr>isconnected := (\<lambda>k. False)\<rparr>) boot)))) = nat 20"
    by blast
  show ?thesis
    using h a b by simp
qed

subsection \<open>The sensor collector\<close>



subsection \<open>The forecast fetcher\<close>

text \<open>
  Claim C5, as stated, fails. The endpoint answers with status 200 and a body that has the
  three keys, \<^verbatim>\<open>main.temp\<close> being the text \<^verbatim>\<open>"283.15"\<close>. The status is below 400 and no
  expected key is missing, yet \<open>get_weather_data\<close> fails: the subtraction of 273.15
  raises \<^verbatim>\<open>TypeError\<close>.
\<close>

theorem get_weather_data_failures_counterexample:
  "urequests_get env_temp_text = Inr \<lparr> status_code = 200, json = Inr body_temp_text \<rparr>
   \<and> main_member body_temp_text ''temp'' = Some (PStr ''283.15'')
   \<and> main_member body_temp_text ''humidity'' = Some (PNum (PInt 81))
   \<and> main_member body_temp_text ''pressure'' = Some (PNum (PInt 1012))
   \<and> \<not> missing_key body_temp_text
   \<and> fst (get_weather_data config_py env_temp_text boot) = Inl TypeError"
proof -
  have f: "str_format env_temp_text (OPENWEATHERMAP_URL config_py)
     [(''lat'', OPENWEATHERMAP_LAT config_py), (''lon'', OPENWEATHERMAP_LON config_py),
      (''api'', OPENWEATHERMAP_API config_py)] = Inr url_py"
    by (simp add: env_temp_text_def env_ok_def format_fields_config_py)
  have r: "urequests_get env_temp_text
             = Inr \<lparr> status_code = 200, json = Inr body_temp_text \<rparr>"
    by (simp add: env_temp_text_def)
  have s: "status_code \<lparr> status_code = 200, json = Inr body_temp_text \<rparr> < 400"
    by simp
  have j: "json \<lparr> status_code = 200, json = Inr body_temp_text \<rparr> = Inr body_temp_text"
    by simp
  have g: "fst (get_weather_data config_py env_temp_text boot) = Inl TypeError"
    using get_weather_data_parsed[OF f r s j, of boot] by (simp add: body_temp_text_def)
  show ?thesis
    using r g by (simp add: missing_key_def main_member_def body_temp_text_def)
qed

text \<open>
  Claim C5, amended. A failure of \<^verbatim>\<open>OPENWEATHERMAP_URL.format\<close>, of \<^verbatim>\<open>urequests.get\<close> or
  of \<^verbatim>\<open>response.json()\<close> leaves \<open>get_weather_data\<close> as it is. Once there is a
  response, \<open>get_weather_data\<close> raises an error of its own (the \<^verbatim>\<open>RuntimeError\<close> of the
  status check, or the \<^verbatim>\<open>KeyError\<close>, \<^verbatim>\<open>TypeError\<close> or \<^verbatim>\<open>ValueError\<close> of reading the
  parsed body) exactly when the status code is at least 400 or the parsed body is not as
  expected: one of \<^verbatim>\<open>main.temp\<close>, \<^verbatim>\<open>main.humidity\<close>, \<^verbatim>\<open>main.pressure\<close> is missing,
  or \<^verbatim>\<open>main.temp\<close> is not a number, or, with the debug pin held low,
  \<^verbatim>\<open>main.humidity\<close> or \<^verbatim>\<open>main.pressure\<close> cannot be shown as a number. A missing key
  always ends in \<^verbatim>\<open>KeyError\<close> or \<^verbatim>\<open>TypeError\<close>, never in a forecast set, and a
  forecast set that is returned holds the humidity and the pressure that the response held.
\<close>

theorem get_weather_data_fails_exactly_when:
  "(str_format env (OPENWEATHERMAP_URL cfg)
       [(''lat'', OPENWEATHERMAP_LAT cfg), (''lon'', OPENWEATHERMAP_LON cfg),
        (''api'', OPENWEATHERMAP_API cfg)] = Inl fe \<longrightarrow>
      fst (get_weather_data cfg env w) = Inl (format_exn fe))
   \<and> (str_format env (OPENWEATHERMAP_URL cfg)
       [(''lat'', OPENWEATHERMAP_LAT cfg), (''lon'', OPENWEATHERMAP_LON cfg),
        (''api'', OPENWEATHERMAP_API cfg)] = Inr url \<longrightarrow>
      (urequests_get env = Inl x \<longrightarrow> fst (get_weather_data cfg env w) = Inl (LibError x))
      \<and> (urequests_get env = Inr resp \<longrightarrow>
           ((\<exists>e. fst (get_weather_data cfg env w) = Inl e \<and> remote_fetch_error e)
              \<longleftrightarrow> 400 \<le> status_code resp
                  \<or> (\<exists>today. json resp = Inr today
                        \<and> (missing_key today \<or> \<not> temp_number today
                           \<or> debug_pin env (Suc (debug_reads w)) = 0
                              \<and> \<not> readings_formattable today)))
           \<and> (400 \<le> status_code resp \<longrightarrow>
                fst (get_weather_data cfg env w)
                  = Inl (RuntimeError ''Webhook OpenWeather URL failed''))
           \<and> (status_code resp < 400 \<longrightarrow> json resp = Inl x \<longrightarrow>
                fst (get_weather_data cfg env w) = Inl (LibError x))
           \<and> (status_code resp < 400 \<longrightarrow> json resp = Inr today \<longrightarrow>
                (missing_key today \<longrightarrow>
                   (\<exists>k. fst (get_weather_data cfg env w) = Inl (KeyError k))
                   \<or> fst (get_weather_data cfg env w) = Inl TypeError)
                \<and> (\<not> missing_key today \<longrightarrow> \<not> temp_number today \<longrightarrow>
                     fst (get_weather_data cfg env w) = Inl TypeError)
                \<and> (\<not> missing_key today \<longrightarrow> temp_number today \<longrightarrow>
                   debug_pin env (Suc (debug_reads w)) = 0 \<longrightarrow>
                   \<not> readings_formattable today \<longrightarrow>
                     fst (get_weather_data cfg env w) = Inl TypeError
                     \<or> fst (get_weather_data cfg env w) = Inl ValueError)
                \<and> (\<not> missing_key today \<longrightarrow> temp_number today \<longrightarrow>
                   debug_pin env (Suc (debug_reads w)) \<noteq> 0 \<or> readings_formattable today \<longrightarrow>
                     (\<exists>fs. fst (get_weather_data cfg env w) = Inr fs
                          \<and> main_member today ''humidity'' = Some (ow_hum fs)
                          \<and> main_member today ''pressure'' = Some (ow_pres fs))))))"
proof (intro conjI impI)
  assume "str_format env (OPENWEATHERMAP_URL cfg)
       [(''lat'', OPENWEATHERMAP_LAT cfg), (''lon'', OPENWEATHERMAP_LON cfg),
        (''api'', OPENWEATHERMAP_API cfg)] = Inl fe"
  then show "fst (get_weather_data cfg env w) = Inl (format_exn fe)"
    by (simp add: get_weather_data_format)
next
  assume f: "str_format env (OPENWEATHERMAP_URL cfg)
       [(''lat'', OPENWEATHERMAP_LAT cfg), (''lon'', OPENWEATHERMAP_LON cfg),
        (''api'', OPENWEATHERMAP_API cfg)] = Inr url"
    and "urequests_get env = Inl x"
  then show "fst (get_weather_data cfg env w) = Inl (LibError x)"
    by (rule get_weather_data_transport)
next
  assume f: "str_format env (OPENWEATHERMAP_URL cfg)
       [(''lat'', OPENWEATHERMAP_LAT cfg), (''lon'', OPENWEATHERMAP_LON cfg),
        (''api'', OPENWEATHERMAP_API cfg)] = Inr url"
    and r: "urequests_get env = Inr resp"
  show "(\<exists>e. fst (get_weather_data cfg env w) = Inl e \<and> remote_fetch_error e)
          \<longleftrightarrow> 400 \<le> status_code resp
              \<or> (\<exists>today. json resp = Inr today
                    \<and> (missing_key today \<or> \<not> temp_number today
                       \<or> debug_pin env (Suc (debug_reads w)) = 0
                          \<and> \<not> readings_formattable today))"
  proof (cases "400 \<le> status_code resp")
    case True
    then show ?thesis
      using get_weather_data_status[OF f r True, of w] by simp
  next
    case False
    then have lt: "status_code resp < 400" by simp
    show ?thesis
    proof (cases "json resp")
      case (Inl y)
      then show ?thesis
        using get_weather_data_json[OF f r lt Inl, of w] False by simp
    next
      case (Inr today)
      note o = get_weather_data_outcome[OF f r lt Inr, of w]
      consider (a) "missing_key today"
        | (b) "\<not> missing_key today" "\<not> temp_number today"
        | (c) "\<not> missing_key today" "temp_number today"
              "debug_pin env (Suc (debug_reads w)) = 0" "\<not> readings_formattable today"
        | (d) "\<not> missing_key today" "temp_number today"
              "debug_pin env (Suc (debug_reads w)) \<noteq> 0 \<or> readings_formattable today"
        by blast
      then show ?thesis
      proof cases
        case a
        from o(1)[OF a] have "\<exists>e. fst (get_weather_data cfg env w) = Inl e \<and> remote_fetch_error e"
          by auto
        then show ?thesis using a Inr by blast
      next
        case b
        from o(2)[OF b] have "\<exists>e. fst (get_weather_data cfg env w) = Inl e \<and> remote_fetch_error e"
          by auto
        then show ?thesis using b Inr by blast
      next
        case c
        from o(3)[OF c] have "\<exists>e. fst (get_weather_data cfg env w) = Inl e \<and> remote_fetch_error e"
          by auto
        then show ?thesis using c Inr by blast
      next
        case d
        from o(4)[OF d] obtain fs where "fst (get_weather_data cfg env w) = Inr fs"
          by blast
        then show ?thesis using d Inr False by auto
      qed
    qed
  qed
next
  assume "str_format env (OPENWEATHERMAP_URL cfg)
       [(''lat'', OPENWEATHERMAP_LAT cfg), (''lon'', OPENWEATHERMAP_LON cfg),
        (''api'', OPENWEATHERMAP_API cfg)] = Inr url"
    "urequests_get env = Inr resp" "400 \<le> status_code resp"
  then show "fst (get_weather_data cfg env w)
               = Inl (RuntimeError ''Webhook OpenWeather URL failed'')"
    by (rule get_weather_data_status)
next
  assume "str_format env (OPENWEATHERMAP_URL cfg)
       [(''lat'', OPENWEATHERMAP_LAT cfg), (''lon'', OPENWEATHERMAP_LON cfg),
        (''api'', OPENWEATHERMAP_API cfg)] = Inr url"
    "urequests_get env = Inr resp" "status_code resp < 400" "json resp = Inl x"
  then show "fst (get_weather_data cfg env w) = Inl (LibError x)"
    by (rule get_weather_data_json)
next
  assume a: "str_format env (OPENWEATHERMAP_URL cfg)
       [(''lat'', OPENWEATHERMAP_LAT cfg), (''lon'', OPENWEATHERMAP_LON cfg),
        (''api'', OPENWEATHERMAP_API cfg)] = Inr url"
    "urequests_get env = Inr resp" "status_code resp < 400" "json resp = Inr today"
    and m: "missing_key today"
  show "(\<exists>k. fst (get_weather_data cfg env w) = Inl (KeyError k))
          \<or> fst (get_weather_data cfg env w) = Inl TypeError"
    by (rule get_weather_data_outcome(1)[OF a m])
next
  assume a: "str_format env (OPENWEATHERMAP_URL cfg)
       [(''lat'', OPENWEATHERMAP_LAT cfg), (''lon'', OPENWEATHERMAP_LON cfg),
        (''api'', OPENWEATHERMAP_API cfg)] = Inr url"
    "urequests_get env = Inr resp" "status_code resp < 400" "json resp = Inr today"
    and m: "\<not> missing_key today" "\<not> temp_number today"
  show "fst (get_weather_data cfg env w) = Inl TypeError"
    by (rule get_weather_data_outcome(2)[OF a m])
next
  assume a: "str_format env (OPENWEATHERMAP_URL cfg)
       [(''lat'', OPENWEATHERMAP_LAT cfg), (''lon'', OPENWEATHERMAP_LON cfg),
        (''api'', OPENWEATHERMAP_API cfg)] = Inr url"
    "urequests_get env = Inr resp" "status_code resp < 400" "json resp = Inr today"
    and m: "\<not> missing_key today" "temp_number today"
      "debug_pin env (Suc (debug_reads w)) = 0" "\<not> readings_formattable today"
  show "fst (get_weather_data cfg env w) = Inl TypeError
          \<or> fst (get_weather_data cfg env w) = Inl ValueError"
    by (rule get_weather_data_outcome(3)[OF a m])
next
  assume a: "str_format env (OPENWEATHERMAP_URL cfg)
       [(''lat'', OPENWEATHERMAP_LAT cfg), (''lon'', OPENWEATHERMAP_LON cfg),
        (''api'', OPENWEATHERMAP_API cfg)] = Inr url"
    "urequests_get env = Inr resp" "status_code resp < 400" "json resp = Inr today"
    and m: "\<not> missing_key today" "temp_number today"
      "debug_pin env (Suc (debug_reads w)) \<noteq> 0 \<or> readings_formattable today"
  show "\<exists>fs. fst (get_weather_data cfg env w) = Inr fs
          \<and> main_member today ''humidity'' = Some (ow_hum fs)
          \<and> main_member today ''pressure'' = Some (ow_pres fs)"
    by (rule get_weather_data_outcome(4)[OF a m])
qed

theorem get_weather_data_fails_exactly_when_witness:
  "str_format env_ok (OPENWEATHERMAP_URL config_units)
       [(''lat'', OPENWEATHERMAP_LAT config_units), (''lon'', OPENWEATHERMAP_LON config_units),
        (''api'', OPENWEATHERMAP_API config_units)] = Inl (MissingField ''units'')
   \<and> fst (get_weather_data config_units env_ok boot) = Inl (KeyError ''units'')
   \<and> urequests_get env_unreachable = Inl ''ETIMEDOUT''
   \<and> fst (get_weather_data config_py env_unreachable boot) = Inl (LibError ''ETIMEDOUT'')
   \<and> urequests_get env_fetch_404 = Inr \<lparr> status_code = 404, json = Inr body_ok \<rparr>
   \<and> fst (get_weather_data config_py env_fetch_404 boot)
       = Inl (RuntimeError ''Webhook OpenWeather URL failed'')
   \<and> urequests_get env_no_pressure = Inr \<lparr> status_code = 200, json = Inr body_no_pressure \<rparr>
   \<and> missing_key body_no_pressure
   \<and> ((\<exists>k. fst (get_weather_data config_py env_no_pressure boot) = Inl (KeyError k))
        \<or> fst (get_weather_data config_py env_no_pressure boot) = Inl TypeError)
   \<and> urequests_get env_temp_text = Inr \<lparr> status_code = 200, json = Inr body_temp_text \<rparr>
   \<and> \<not> missing_key body_temp_text
   \<and> \<not> temp_number body_temp_text
   \<and> fst (get_weather_data config_py env_temp_text boot) = Inl TypeError
   \<and> urequests_get env_ok = Inr \<lparr> status_code = 200, json = Inr body_ok \<rparr>
   \<and> \<not> missing_key body_ok
   \<and> temp_number body_ok
   \<and> readings_formattable body_ok
   \<and> (\<exists>fs. fst (get_weather_data config_py env_ok boot) = Inr fs
          \<and> main_member body_ok ''humidity'' = Some (ow_hum fs)
          \<and> main_member body_ok ''pressure'' = Some (ow_pres fs))"
proof -
  have fu: "str_format env_ok (OPENWEATHERMAP_URL config_units)
       [(''lat'', OPENWEATHERMAP_LAT config_units), (''lon'', OPENWEATHERMAP_LON config_units),
        (''api'', OPENWEATHERMAP_API config_units)] = Inl (MissingField ''units'')"
    by (simp add: env_ok_def format_fields_def config_units_def config_py_def)
  have f: "str_format env (OPENWEATHERMAP_URL config_py)
       [(''lat'', OPENWEATHERMAP_LAT config_py), (''lon'', OPENWEATHERMAP_LON config_py),
        (''api'', OPENWEATHERMAP_API config_py)] = Inr url_py"
    if "str_format env = format_fields" for env
    by (simp add: that format_fields_config_py)
  have f1: "str_format env_unreachable = format_fields"
    and f2: "str_format env_fetch_404 = format_fields"
    and f3: "str_format env_no_pressure = format_fields"
    and f4: "str_format env_temp_text = format_fields"
    and f5: "str_format env_ok = format_fields"
    by (simp_all add: env_unreachable_def env_fetch_404_def env_no_pressure_def
        env_temp_text_def env_ok_def)
  have r1: "urequests_get env_unreachable = Inl ''ETIMEDOUT''"
    by (simp add: env_unreachable_def)
  have r2: "urequests_get env_fetch_404 = Inr \<lparr> status_code = 404, json = Inr body_ok \<rparr>"
    by (simp add: env_fetch_404_def)
  have r3: "urequests_get env_no_pressure
              = Inr \<lparr> status_code = 200, json = Inr body_no_pressure \<rparr>"
    by (simp add: env_no_pressure_def)
  have r4: "urequests_get env_temp_text
              = Inr \<lparr> status_code = 200, json = Inr body_temp_text \<rparr>"
    by (simp add: env_temp_text_def)
  have r5: "urequests_get env_ok = Inr \<lparr> status_code = 200, json = Inr body_ok \<rparr>"
    by (simp add: env_ok_def)
  have s2: "400 \<le> status_code \<lparr> status_code = 404, json = Inr body_ok \<rparr>"
    by simp
  have s: "status_code \<lparr> status_code = 200, json = Inr b \<rparr> < 400"
    "json \<lparr> status_code = 200, json = Inr b \<rparr> = Inr b" for b :: pyval
    by simp_all
  have m3: "missing_key body_no_pressure"
    by (simp add: missing_key_def main_member_def body_no_pressure_def)
  have m4: "\<not> missing_key body_temp_text" "\<not> temp_number body_temp_text"
    by (simp_all add: missing_key_def temp_number_def main_member_def body_temp_text_def)
  have m5: "\<not> missing_key body_ok" "temp_number body_ok" "readings_formattable body_ok"
    by (simp_all add: missing_key_def temp_number_def readings_formattable_def main_member_def
        body_ok_def main_ok_def)
  note t0 = get_weather_data_fails_exactly_when[where env = env_ok and cfg = config_units
      and fe = "MissingField ''units''" and w = boot]
  note t1 = get_weather_data_fails_exactly_when[where env = env_unreachable
      and cfg = config_py and url = url_py and x = "''ETIMEDOUT''" and w = boot]
  note t2 = get_weather_data_fails_exactly_when[where env = env_fetch_404
      and cfg = config_py and url = url_py and w = boot
      and resp = "\<lparr> status_code = 404, json = Inr body_ok \<rparr>"]
  note t3 = get_weather_data_fails_exactly_when[where env = env_no_pressure
      and cfg = config_py and url = url_py and w = boot and today = body_no_pressure
      and resp = "\<lparr> status_code = 200, json = Inr body_no_pressure \<rparr>"]
  note t4 = get_weather_data_fails_exactly_when[where env = env_temp_text
      and cfg = config_py and url = url_py and w = boot and today = body_temp_text
      and resp = "\<lparr> status_code = 200, json = Inr body_temp_text \<rparr>"]
  note t5 = get_weather_data_fails_exactly_when[where env = env_ok
      and cfg = config_py and url = url_py and w = boot and today = body_ok
      and resp = "\<lparr> status_code = 200, json = Inr body_ok \<rparr>"]
  have g0: "fst (get_weather_data config_units env_ok boot) = Inl (KeyError ''units'')"
    using t0 fu by simp
  have g1: "fst (get_weather_data config_py env_unreachable boot) = Inl (LibError ''ETIMEDOUT'')"
    using t1 f[OF f1] r1 by blast
  have g2: "fst (get_weather_data config_py env_fetch_404 boot)
       = Inl (RuntimeError ''Webhook OpenWeather URL failed'')"
    using t2 f[OF f2] r2 s2 by blast
  have g3: "(\<exists>k. fst (get_weather_data config_py env_no_pressure boot) = Inl (KeyError k))
        \<or> fst (get_weather_data config_py env_no_pressure boot) = Inl TypeError"
    using t3 f[OF f3] r3 s[of body_no_pressure] m3 by blast
  have g4: "fst (get_weather_data config_py env_temp_text boot) = Inl TypeError"
    using t4 f[OF f4] r4 s[of body_temp_text] m4 by blast
  have g5: "\<exists>fs. fst (get_weather_data config_py env_ok boot) = Inr fs
          \<and> main_member body_ok ''humidity'' = Some (ow_hum fs)
          \<and> main_member body_ok ''pressure'' = Some (ow_pres fs)"
    using t5 f[OF f5] r5 s[of body_ok] m5 by blast
  show ?thesis
    using fu g0 r1 g1 r2 g2 r3 m3 g3 r4 m4 g4 r5 m5 g5 by blast
qed

text \<open>
  Claim C6. For a response of status below 400 whose body is a dictionary with a dictionary
  \<^verbatim>\<open>main\<close> that has the three keys and a number for \<^verbatim>\<open>temp\<close>, the forecast set is
  \<open>ow_temp = temperature_2_unit (main.temp - 273.15)\<close>, with humidity and pressure as
  they came (values that the debug message can show, when the debug pin is held low). With
  Fahrenheit configured, 283.15 K gives 50.
\<close>

theorem get_weather_data_converts:
  assumes "str_format env (OPENWEATHERMAP_URL cfg)
             [(''lat'', OPENWEATHERMAP_LAT cfg), (''lon'', OPENWEATHERMAP_LON cfg),
              (''api'', OPENWEATHERMAP_API cfg)] = Inr url"
    and "urequests_get env = Inr resp" "status_code resp < 400"
    and "json resp = Inr (PDict today)"
    and "today ''main'' = Some (PDict m)"
    and "m ''temp'' = Some (PNum t)" "m ''humidity'' = Some h" "m ''pressure'' = Some p"
    and "debug_pin env (Suc (debug_reads w)) = 0 \<longrightarrow> formattable h \<and> formattable p"
  shows "fst (get_weather_data cfg env w) =
           Inr \<lparr> ow_temp = temperature_2_unit cfg (py_sub t (PFloat (27315 / 100))),
                 ow_hum = h, ow_pres = p \<rparr>
     \<and> (FAHRENHEIT cfg \<longrightarrow> t = PFloat (28315 / 100) \<longrightarrow>
          fst (get_weather_data cfg env w) = Inr \<lparr> ow_temp = PFloat 50, ow_hum = h, ow_pres = p \<rparr>)"
  using get_weather_data_parsed[OF assms(1-4), of w] assms(5-9)
  by (auto simp add: temperature_2_unit_def py_truediv_def)

theorem get_weather_data_converts_witness:
  "str_format env_ok (OPENWEATHERMAP_URL config_fahrenheit)
       [(''lat'', OPENWEATHERMAP_LAT config_fahrenheit),
        (''lon'', OPENWEATHERMAP_LON config_fahrenheit),
        (''api'', OPENWEATHERMAP_API config_fahrenheit)] = Inr url_py
   \<and> urequests_get env_ok = Inr \<lparr> status_code = 200, json = Inr body_ok \<rparr>
   \<and> status_code \<lparr> status_code = 200, json = Inr body_ok \<rparr> < 400
   \<and> json \<lparr> status_code = 200, json = Inr body_ok \<rparr> = Inr (PDict [''main'' \<mapsto> PDict main_ok])
   \<and> [''main'' \<mapsto> PDict main_ok] ''main'' = Some (PDict main_ok)
   \<and> main_ok ''temp'' = Some (PNum (PFloat (28315 / 100)))
   \<and> main_ok ''humidity'' = Some (PNum (PInt 81))
   \<and> main_ok ''pressure'' = Some (PNum (PInt 1012))
   \<and> formattable (PNum (PInt 81)) \<and> formattable (PNum (PInt 1012))
   \<and> FAHRENHEIT config_fahrenheit
   \<and> fst (get_weather_data config_fahrenheit env_ok boot)
       = Inr \<lparr> ow_temp = PFloat 50, ow_hum = PNum (PInt 81), ow_pres = PNum (PInt 1012) \<rparr>"
proof -
  have u: "str_format env_ok (OPENWEATHERMAP_URL config_fahrenheit)
       [(''lat'', OPENWEATHERMAP_LAT config_fahrenheit),
        (''lon'', OPENWEATHERMAP_LON config_fahrenheit),
        (''api'', OPENWEATHERMAP_API config_fahrenheit)] = Inr url_py"
    using format_fields_config_py by (simp add: env_ok_def config_fahrenheit_def)
  have a: "urequests_get env_ok = Inr \<lparr> status_code = 200, json = Inr body_ok \<rparr>"
    by (simp add: env_ok_def)
  have b: "status_code \<lparr> status_code = 200, json = Inr body_ok \<rparr> < 400"
    by simp
  have c: "json \<lparr> status_code = 200, json = Inr body_ok \<rparr>
             = Inr (PDict [''main'' \<mapsto> PDict main_ok])"
    by (simp add: body_ok_def)
  have d: "[''main'' \<mapsto> PDict main_ok] ''main'' = Some (PDict main_ok)"
    by simp
  have e: "main_ok ''temp'' = Some (PNum (PFloat (28315 / 100)))"
    "main_ok ''humidity'' = Some (PNum (PInt 81))"
    "main_ok ''pressure'' = Some (PNum (PInt 1012))"
    by (simp_all add: main_ok_def)
  have k: "formattable (PNum (PInt 81))" "formattable (PNum (PInt 1012))"
    by simp_all
  have k': "debug_pin env_ok (Suc (debug_reads boot)) = 0 \<longrightarrow>
              formattable (PNum (PInt 81)) \<and> formattable (PNum (PInt 1012))"
    using k by simp
  have f: "FAHRENHEIT config_fahrenheit"
    by (simp add: config_fahrenheit_def)
  have "fst (get_weather_data config_fahrenheit env_ok boot)
       = Inr \<lparr> ow_temp = PFloat 50, ow_hum = PNum (PInt 81), ow_pres = PNum (PInt 1012) \<rparr>"
    using get_weather_data_converts[OF u a b c d e k'] f by blast
  then show ?thesis
    using u a b c d e k f by blast
qed

subsection \<open>The unit converter\<close>

text \<open>
  Claim C7. \<open>temperature_2_unit\<close> is a total function of the configuration and a number,
  with no failure value in its result type. With the Fahrenheit preference it returns the
  float \<open>c * 9 / 5 + 32\<close>, so 0 becomes 32 and 100 becomes 212, for an int as for a
  float; without it, it returns its argument unchanged.
\<close>

theorem temperature_2_unit_formula:
  "temperature_2_unit cfg c = (if FAHRENHEIT cfg then PFloat (num_val c * 9 / 5 + 32) else c)
   \<and> temperature_2_unit (cfg\<lparr>FAHRENHEIT := True\<rparr>) (PInt 0) = PFloat 32
   \<and> temperature_2_unit (cfg\<lparr>FAHRENHEIT := True\<rparr>) (PFloat 0) = PFloat 32
   \<and> temperature_2_unit (cfg\<lparr>FAHRENHEIT := True\<rparr>) (PInt 100) = PFloat 212
   \<and> temperature_2_unit (cfg\<lparr>FAHRENHEIT := True\<rparr>) (PFloat 100) = PFloat 212
   \<and> temperature_2_unit (cfg\<lparr>FAHRENHEIT := False\<rparr>) c = c"
  by (cases c) (simp_all add: temperature_2_unit_def py_truediv_def)

theorem temperature_2_unit_formula_witness:
  "temperature_2_unit (config_py\<lparr>FAHRENHEIT := True\<rparr>) (PFloat 10) = PFloat 50
   \<and> temperature_2_unit config_py (PFloat 10) = PFloat 10"
  using temperature_2_unit_formula[of "config_py\<lparr>FAHRENHEIT := True\<rparr>" "PFloat 10"]
    temperature_2_unit_formula[of config_py "PFloat 10"]
  by (simp add: config_py_def)

subsection \<open>The power scheduler\<close>

text \<open>
  Claim C8. When the body of the \<^verbatim>\<open>try\<close> has completed, \<open>run\<close> samples the debug
  pin (an input with pull-up). If it reads 0, \<open>run\<close> returns and the whole cycle holds no
  deep sleep and no reset. Otherwise \<open>run\<close> announces the sleep, waits two seconds and
  calls \<^verbatim>\<open>deepsleep(INTERVAL * 1000)\<close>, the only power transition of the cycle.
\<close>

theorem power_scheduling:
  assumes "stages str cfg env w = (Inr u, w1)"
  shows "(debug_pin env (debug_reads w1) = 0 \<longrightarrow>
            fst (run str cfg env w) = Returned
            \<and> new_events w1 (snd (run str cfg env w)) = debug_on_events cfg
            \<and> filter power_event (new_events w (snd (run str cfg env w))) = [])
     \<and> (debug_pin env (debug_reads w1) \<noteq> 0 \<longrightarrow>
            fst (run str cfg env w) = InDeepsleep (INTERVAL cfg * 1000)
            \<and> new_events w1 (snd (run str cfg env w))
                = debug_on_events cfg @ deepsleep_events cfg
            \<and> filter power_event (new_events w (snd (run str cfg env w)))
                = [MachineDeepsleep (INTERVAL cfg * 1000)])"
  by (rule run_completed_power[OF assms])

theorem power_scheduling_witness:
  "stages str_hidden config_py env_ok boot
     = (Inr (), snd (stages str_hidden config_py env_ok boot))
   \<and> debug_pin env_ok (debug_reads (snd (stages str_hidden config_py env_ok boot))) \<noteq> 0
   \<and> fst (run str_hidden config_py env_ok boot) = InDeepsleep 900000
   \<and> stages str_hidden config_py env_debug boot
     = (Inr (), snd (stages str_hidden config_py env_debug boot))
   \<and> debug_pin env_debug (debug_reads (snd (stages str_hidden config_py env_debug boot))) = 0
   \<and> fst (run str_hidden config_py env_debug boot) = Returned"
proof -
  have s: "stages str cfg env w = (Inr (), snd (stages str cfg env w))"
    if "fst (stages str cfg env w) = Inr ()" for str cfg env w
    using that by (rule pair_of_fst)
  have ok: "fst (stages str_hidden config_py env boot) = Inr ()"
    if "env = env_ok\<lparr>mqtt_connect := None, debug_pin := d\<rparr>" for env d
  proof -
    have c: "connect_wifi config_py env boot
               = (Inr (PInt (- 60)), snd (connect_wifi config_py env boot))"
      by (rule pair_of_fst, rule connect_wifi_example) (simp_all add: that env_ok_def)
    have g: "get_weather_data config_py env (snd (connect_wifi config_py env boot))
               = (Inr ow_ok, snd (get_weather_data config_py env
                    (snd (connect_wifi config_py env boot))))"
      by (rule pair_of_fst, rule get_weather_data_example) (simp_all add: that env_ok_def)
    have r: "get_sensor_readings config_py env
               (snd (get_weather_data config_py env (snd (connect_wifi config_py env boot))))
               = (Inr sd_ok, snd (get_sensor_readings config_py env
                   (snd (get_weather_data config_py env
                     (snd (connect_wifi config_py env boot))))))"
      by (rule pair_of_fst, rule get_sensor_readings_example[OF that])
    show ?thesis
      by (simp add: stages_all[OF c g r] log_readings_apply)
  qed
  have e1: "env_ok = env_ok\<lparr>mqtt_connect := None, debug_pin := (\<lambda>k. 1)\<rparr>"
    by (simp add: env_ok_def)
  have e2: "env_debug = env_ok\<lparr>mqtt_connect := None, debug_pin := (\<lambda>k. 0)\<rparr>"
    by (simp add: env_debug_def env_ok_def)
  note s1 = s[OF ok[OF e1]] and s2 = s[OF ok[OF e2]]
  have d1: "debug_pin env_ok k \<noteq> 0" for k by (simp add: env_ok_def)
  have d2: "debug_pin env_debug k = 0" for k by (simp add: env_debug_def)
  have i: "INTERVAL config_py * 1000 = 900000" by (simp add: config_py_def)
  from power_scheduling[OF s1] d1 have r1: "fst (run str_hidden config_py env_ok boot)
      = InDeepsleep (INTERVAL config_py * 1000)"
    by blast
  from power_scheduling[OF s2] d2 have r2: "fst (run str_hidden config_py env_debug boot)
      = Returned"
    by blast
  show ?thesis
    using s1 s2 d1 d2 r1 r2 unfolding i by blast
qed

subsection \<open>The payload\<close>




subsection \<open>The publisher never raises\<close>

text \<open>
  Claim C10. \<open>log_readings\<close> returns normally in every world and for every answer of
  the broker client. It makes the client and calls connect, publish and disconnect up to
  the first call that fails; that exception is caught inside \<open>log_readings\<close>, printed
  and signalled with \<open>show_error\<close>, and dropped: \<open>log_readings\<close> goes on to its debug
  message. So whenever the three stages before it have succeeded, \<open>run\<close> goes on to the
  debug pin: it returns when the pin reads 0 and otherwise ends in deep sleep for
  \<open>INTERVAL * 1000\<close> ms, and the cycle holds no reset.
\<close>

theorem log_readings_never_raises:
  "fst (log_readings str cfg env ow sd rssi w3) = Inr ()
   \<and> new_events w3 (snd (log_readings str cfg env ow sd rssi w3)) =
       [Print ''Upload readings to MQTT broker'',
        MQTTClientNew ''effevees_weerstation'' (MQTT_HOST cfg) 30,
        MQTTConnect]
       @ (if mqtt_connect env = None
          then MQTTPublish (MQTT_TOPIC cfg) (payload str cfg ow sd rssi)
               # (if mqtt_publish env = None then [MQTTDisconnect] else [])
          else [])
       @ (case broker_failure env of
            None \<Rightarrow> []
          | Some x \<Rightarrow>
              [PrintException (LibError x),
               PinNew (LED_PIN cfg) Pin_OUT,
               PinValueSet (LED_PIN cfg) (LED_ON cfg), Sleep (1 / 2),
               PinValueSet (LED_PIN cfg) (LED_OFF cfg), Sleep (1 / 2),
               PinValueSet (LED_PIN cfg) (LED_ON cfg), Sleep (1 / 2),
               PinValueSet (LED_PIN cfg) (LED_OFF cfg), Sleep (1 / 2),
               PinValueSet (LED_PIN cfg) (LED_ON cfg), Sleep (1 / 2),
               PinValueSet (LED_PIN cfg) (LED_OFF cfg), Sleep (1 / 2)])
       @ [PinNew (DEBUG_PIN cfg) Pin_IN_PULL_UP, PinValueGet (DEBUG_PIN cfg)]
       @ (if debug_pin env (debug_reads w3) = 0
          then [PrintFormat ''MQTT publish : {}'' [AStr (payload str cfg ow sd rssi)]]
          else [])
   \<and> (connect_wifi cfg env w = (Inr rssi, w1) \<longrightarrow>
      get_weather_data cfg env w1 = (Inr ow, w2) \<longrightarrow>
      get_sensor_readings cfg env w2 = (Inr sd, w3) \<longrightarrow>
        fst (run str cfg env w) =
          (if debug_pin env (Suc (debug_reads w3)) = 0 then Returned
           else InDeepsleep (INTERVAL cfg * 1000))
        \<and> MachineReset \<notin> set (new_events w (snd (run str cfg env w))))"
proof (intro conjI impI)
  show "fst (log_readings str cfg env ow sd rssi w3) = Inr ()"
    by (simp add: log_readings_apply)
next
  show "new_events w3 (snd (log_readings str cfg env ow sd rssi w3)) =
       [Print ''Upload readings to MQTT broker'',
        MQTTClientNew ''effevees_weerstation'' (MQTT_HOST cfg) 30,
        MQTTConnect]
       @ (if mqtt_connect env = None
          then MQTTPublish (MQTT_TOPIC cfg) (payload str cfg ow sd rssi)
               # (if mqtt_publish env = None then [MQTTDisconnect] else [])
          else [])
       @ (case broker_failure env of
            None \<Rightarrow> []
          | Some x \<Rightarrow>
              [PrintException (LibError x),
               PinNew (LED_PIN cfg) Pin_OUT,
               PinValueSet (LED_PIN cfg) (LED_ON cfg), Sleep (1 / 2),
               PinValueSet (LED_PIN cfg) (LED_OFF cfg), Sleep (1 / 2),
               PinValueSet (LED_PIN cfg) (LED_ON cfg), Sleep (1 / 2),
               PinValueSet (LED_PIN cfg) (LED_OFF cfg), Sleep (1 / 2),
               PinValueSet (LED_PIN cfg) (LED_ON cfg), Sleep (1 / 2),
               PinValueSet (LED_PIN cfg) (LED_OFF cfg), Sleep (1 / 2)])
       @ [PinNew (DEBUG_PIN cfg) Pin_IN_PULL_UP, PinValueGet (DEBUG_PIN cfg)]
       @ (if debug_pin env (debug_reads w3) = 0
          then [PrintFormat ''MQTT publish : {}'' [AStr (payload str cfg ow sd rssi)]]
          else [])"
    by (simp add: log_readings_apply new_events_def broker_calls_def broker_failure_def
        show_error_events_def debug_on_events_def eval_nat_numeral split: option.splits)
next
  assume a: "connect_wifi cfg env w = (Inr rssi, w1)"
    "get_weather_data cfg env w1 = (Inr ow, w2)"
    "get_sensor_readings cfg env w2 = (Inr sd, w3)"
  note r = run_after_three_stages[OF a, of str]
  from r show "fst (run str cfg env w) =
          (if debug_pin env (Suc (debug_reads w3)) = 0 then Returned
           else InDeepsleep (INTERVAL cfg * 1000))"
    by blast
  have "MachineReset \<notin> set (filter power_event (new_events w (snd (run str cfg env w))))"
    using r by (simp split: if_splits)
  then show "MachineReset \<notin> set (new_events w (snd (run str cfg env w)))"
    by simp
qed

theorem log_readings_never_raises_witness:
  "mqtt_connect env_publish_fails = None
   \<and> mqtt_publish env_publish_fails = Some ''ECONNRESET''
   \<and> fst (log_readings str_hidden config_py env_publish_fails ow_ok sd_ok (PInt (- 60)) boot)
       = Inr ()
   \<and> new_events boot
        (snd (log_readings str_hidden config_py env_publish_fails ow_ok sd_ok (PInt (- 60)) boot))
       = [Print ''Upload readings to MQTT broker'',
          MQTTClientNew ''effevees_weerstation'' ''<IP address MQTT host>'' 30,
          MQTTConnect,
          MQTTPublish ''weatherdata'' (payload str_hidden config_py ow_ok sd_ok (PInt (- 60))),
          PrintException (LibError ''ECONNRESET''),
          PinNew 2 Pin_OUT,
          PinValueSet 2 0, Sleep (1 / 2), PinValueSet 2 1, Sleep (1 / 2),
          PinValueSet 2 0, Sleep (1 / 2), PinValueSet 2 1, Sleep (1 / 2),
          PinValueSet 2 0, Sleep (1 / 2), PinValueSet 2 1, Sleep (1 / 2),
          PinNew 5 Pin_IN_PULL_UP, PinValueGet 5]
   \<and> mqtt_connect env_broker_down = Some ''ECONNREFUSED''
   \<and> fst (run str_hidden config_py env_broker_down boot) = InDeepsleep 900000
   \<and> MachineReset \<notin> set (new_events boot (snd (run str_hidden config_py env_broker_down boot)))"
proof -
  let ?E = env_broker_down
  let ?w1 = "snd (connect_wifi config_py ?E boot)"
  let ?w2 = "snd (get_weather_data config_py ?E ?w1)"
  let ?w3 = "snd (get_sensor_readings config_py ?E ?w2)"
  have c: "connect_wifi config_py ?E boot = (Inr (PInt (- 60)), ?w1)"
    by (rule pair_of_fst, rule connect_wifi_example)
       (simp_all add: env_broker_down_def env_ok_def)
  have g: "get_weather_data config_py ?E ?w1 = (Inr ow_ok, ?w2)"
    by (rule pair_of_fst, rule get_weather_data_example)
       (simp_all add: env_broker_down_def env_ok_def)
  have r: "get_sensor_readings config_py ?E ?w2 = (Inr sd_ok, ?w3)"
    by (rule pair_of_fst,
        rule get_sensor_readings_example[where c = "Some ''ECONNREFUSED''" and d = "\<lambda>k. 1"])
       (simp add: env_broker_down_def env_ok_def)
  have b: "mqtt_connect ?E = Some ''ECONNREFUSED''"
    by (simp add: env_broker_down_def)
  have p: "debug_pin ?E k \<noteq> 0" for k
    by (simp add: env_broker_down_def env_ok_def)
  have i: "INTERVAL config_py * 1000 = 900000"
    by (simp add: config_py_def)
  have q: "mqtt_connect env_publish_fails = None"
    "mqtt_publish env_publish_fails = Some ''ECONNRESET''"
    "broker_failure env_publish_fails = Some ''ECONNRESET''"
    "debug_pin env_publish_fails (debug_reads boot) \<noteq> 0"
    by (simp_all add: env_publish_fails_def env_ok_def broker_failure_def)
  have h: "MQTT_HOST config_py = ''<IP address MQTT host>''" "MQTT_TOPIC config_py = ''weatherdata''"
    "LED_PIN config_py = 2" "LED_ON config_py = 0" "LED_OFF config_py = 1"
    "DEBUG_PIN config_py = 5"
    by (simp_all add: config_py_def)
  note t = log_readings_never_raises[of str_hidden config_py ?E ow_ok sd_ok "PInt (- 60)"
      ?w3 boot ?w1 ?w2]
  note t0 = log_readings_never_raises[of str_hidden config_py env_publish_fails ow_ok sd_ok
      "PInt (- 60)" boot boot boot boot]
  have l: "fst (log_readings str_hidden config_py env_publish_fails ow_ok sd_ok (PInt (- 60))
                  boot) = Inr ()"
    using t0 by blast
  have n: "new_events boot
        (snd (log_readings str_hidden config_py env_publish_fails ow_ok sd_ok (PInt (- 60)) boot))
       = [Print ''Upload readings to MQTT broker'',
          MQTTClientNew ''effevees_weerstation'' ''<IP address MQTT host>'' 30,
          MQTTConnect,
          MQTTPublish ''weatherdata'' (payload str_hidden config_py ow_ok sd_ok (PInt (- 60))),
          PrintException (LibError ''ECONNRESET''),
          PinNew 2 Pin_OUT,
          PinValueSet 2 0, Sleep (1 / 2), PinValueSet 2 1, Sleep (1 / 2),
          PinValueSet 2 0, Sleep (1 / 2), PinValueSet 2 1, Sleep (1 / 2),
          PinValueSet 2 0, Sleep (1 / 2), PinValueSet 2 1, Sleep (1 / 2),
          PinNew 5 Pin_IN_PULL_UP, PinValueGet 5]"
    using conjunct1[OF conjunct2[OF t0]] by (simp add: q h)
  have o: "fst (run str_hidden config_py ?E boot) = InDeepsleep 900000"
    using t c g r p[of "Suc (debug_reads ?w3)"] unfolding i by presburger
  have m: "MachineReset \<notin> set (new_events boot (snd (run str_hidden config_py ?E boot)))"
    using t c g r by blast
  show ?thesis
    using q(1,2) l n b o m by blast
qed

end
